theory Spec2Isabelle
  imports Complex_Main "HOL-Library.Word"
begin

section \<open>The C interface of PRIMA (c/prima.c)\<close>

text \<open>
  The model follows \<^verbatim>\<open>c/prima.c\<close> function by function. Conventions:
  \<^item> \<^verbatim>\<open>int\<close> is a 32-bit word; signed comparisons are \<open><s\<close>. Where C leaves signed
    overflow undefined (\<^verbatim>\<open>MAXFUN_DIM_DFT*problem->n\<close>, \<^verbatim>\<open>2*problem->n+1\<close>) the model
    takes the two's-complement result.
  \<^item> \<^verbatim>\<open>size_t\<close> is a 64-bit word and \<^verbatim>\<open>sizeof(double)\<close> is 8.
  \<^item> A pointer is an \<open>option\<close>: \<open>None\<close> is \<^verbatim>\<open>NULL\<close>. A pointer to a struct is the struct's
    value; a pointer to an array of doubles is the address of a block of the heap.
  \<^item> A function returns its C return value together with the new value of every object
    it receives through a non-const pointer.
  \<^item> A function that reaches undefined behaviour (a copy beyond a block, a
    \<^verbatim>\<open>free\<close> of a dangling pointer, a dereference of \<^verbatim>\<open>NULL\<close>) returns \<open>None\<close>.
\<close>

type_synonym cint = "32 word"
type_synonym size_t = "64 word"
type_synonym addr = nat
type_synonym fptr = nat

datatype double = Finite real | PosInf | NegInf | NaN

subsection \<open>The header prima/prima.h\<close>

text \<open>
  The header is not among the sources. Its enumerators are known by name from
  \<^verbatim>\<open>prima.c\<close>; their integer values are a parameter of the model (\<open>prima_h\<close>).
\<close>

datatype prima_rc_t =
    PRIMA_SMALL_TR_RADIUS
  | PRIMA_FTARGET_ACHIEVED
  | PRIMA_TRSUBP_FAILED
  | PRIMA_MAXFUN_REACHED
  | PRIMA_MAXTR_REACHED
  | PRIMA_NAN_INF_X
  | PRIMA_NAN_INF_F
  | PRIMA_NAN_INF_MODEL
  | PRIMA_NO_SPACE_BETWEEN_BOUNDS
  | PRIMA_DAMAGING_ROUNDING
  | PRIMA_ZERO_LINEAR_CONSTRAINT
  | PRIMA_CALLBACK_TERMINATE
  | PRIMA_INVALID_INPUT
  | PRIMA_ASSERTION_FAILS
  | PRIMA_VALIDATION_FAILS
  | PRIMA_MEMORY_ALLOCATION_FAILS
  | PRIMA_NULL_OPTIONS
  | PRIMA_NULL_PROBLEM
  | PRIMA_NULL_X0
  | PRIMA_NULL_RESULT
  | PRIMA_NULL_FUNCTION
  | PRIMA_PROBLEM_SOLVER_MISMATCH_NONLINEAR_CONSTRAINTS
  | PRIMA_PROBLEM_SOLVER_MISMATCH_LINEAR_CONSTRAINTS
  | PRIMA_PROBLEM_SOLVER_MISMATCH_BOUNDS

datatype prima_algorithm_t =
    PRIMA_BOBYQA
  | PRIMA_COBYLA
  | PRIMA_LINCOA
  | PRIMA_NEWUOA
  | PRIMA_UOBYQA

record prima_h =
  rc_val :: "prima_rc_t \<Rightarrow> cint"
  alg_val :: "prima_algorithm_t \<Rightarrow> cint"
  PRIMA_MSG_NONE :: cint

definition all_rc :: "prima_rc_t list" where
  "all_rc =
    [PRIMA_SMALL_TR_RADIUS, PRIMA_FTARGET_ACHIEVED, PRIMA_TRSUBP_FAILED,
     PRIMA_MAXFUN_REACHED, PRIMA_MAXTR_REACHED, PRIMA_NAN_INF_X, PRIMA_NAN_INF_F,
     PRIMA_NAN_INF_MODEL, PRIMA_NO_SPACE_BETWEEN_BOUNDS, PRIMA_DAMAGING_ROUNDING,
     PRIMA_ZERO_LINEAR_CONSTRAINT, PRIMA_CALLBACK_TERMINATE, PRIMA_INVALID_INPUT,
     PRIMA_ASSERTION_FAILS, PRIMA_VALIDATION_FAILS, PRIMA_MEMORY_ALLOCATION_FAILS,
     PRIMA_NULL_OPTIONS, PRIMA_NULL_PROBLEM, PRIMA_NULL_X0, PRIMA_NULL_RESULT,
     PRIMA_NULL_FUNCTION, PRIMA_PROBLEM_SOLVER_MISMATCH_NONLINEAR_CONSTRAINTS,
     PRIMA_PROBLEM_SOLVER_MISMATCH_LINEAR_CONSTRAINTS,
     PRIMA_PROBLEM_SOLVER_MISMATCH_BOUNDS]"

definition all_algorithms :: "prima_algorithm_t list" where
  "all_algorithms = [PRIMA_BOBYQA, PRIMA_COBYLA, PRIMA_LINCOA, PRIMA_NEWUOA, PRIMA_UOBYQA]"

text \<open>
  The statuses with which \<^verbatim>\<open>prima.c\<close> itself reports a failure. \<^verbatim>\<open>prima_minimize\<close>
  goes on exactly when the status so far is the literal 0, so the code presupposes that
  none of them is 0.
\<close>

definition failure_rc :: "prima_rc_t list" where
  "failure_rc =
    [PRIMA_INVALID_INPUT, PRIMA_MEMORY_ALLOCATION_FAILS, PRIMA_NULL_OPTIONS,
     PRIMA_NULL_PROBLEM, PRIMA_NULL_X0, PRIMA_NULL_RESULT, PRIMA_NULL_FUNCTION,
     PRIMA_PROBLEM_SOLVER_MISMATCH_NONLINEAR_CONSTRAINTS,
     PRIMA_PROBLEM_SOLVER_MISMATCH_LINEAR_CONSTRAINTS,
     PRIMA_PROBLEM_SOLVER_MISMATCH_BOUNDS]"

text \<open>
  What the code needs of the header: the enumerators of each enumeration have pairwise
  different values (they are the case labels of the two \<^verbatim>\<open>switch\<close> statements, which C
  requires to be distinct), and a failure status is not 0.
\<close>

definition header_ok :: "prima_h \<Rightarrow> bool" where
  "header_ok H \<longleftrightarrow>
     distinct (map (rc_val H) all_rc) \<and>
     distinct (map (alg_val H) all_algorithms) \<and>
     0 \<notin> set (map (rc_val H) failure_rc)"

text \<open>
  Modelled from the spec: the declarations of the three structs are in
  \<^verbatim>\<open>prima/prima.h\<close>, which is not among the sources. The fields are those of the
  specification's data model, under the names \<^verbatim>\<open>prima.c\<close> reads and writes them by and
  at the types it uses them at. A field \<^verbatim>\<open>s->f\<close> of a \<^verbatim>\<open>prima_s_t\<close> is \<open>s_f\<close>.
\<close>

record prima_problem_t =
  problem_n :: cint
  problem_calfun :: "fptr option"
  problem_calcfc :: "fptr option"
  problem_x0 :: "addr option"
  problem_xl :: "addr option"
  problem_xu :: "addr option"
  problem_m_ineq :: cint
  problem_Aineq :: "addr option"
  problem_bineq :: "addr option"
  problem_m_eq :: cint
  problem_Aeq :: "addr option"
  problem_beq :: "addr option"
  problem_m_nlcon :: cint
  problem_f0 :: double
  problem_nlconstr0 :: "addr option"

record prima_options_t =
  options_rhobeg :: double
  options_rhoend :: double
  options_ftarget :: double
  options_maxfun :: cint
  options_npt :: cint
  options_iprint :: cint
  options_data :: "addr option"
  options_callback :: "fptr option"

record prima_result_t =
  result_x :: "addr option"
  result_f :: double
  result_cstrv :: double
  result_nlconstr :: "addr option"
  result__m_nlcon :: cint
  result_nf :: cint
  result_status :: cint
  result_message :: "string option"

text \<open>\<^verbatim>\<open>memset(s, 0, sizeof(*s))\<close>: every integer 0, every double 0.0, every pointer \<^verbatim>\<open>NULL\<close>.\<close>

definition zero_problem :: prima_problem_t where
  "zero_problem =
    \<lparr>problem_n = 0, problem_calfun = None, problem_calcfc = None, problem_x0 = None,
     problem_xl = None, problem_xu = None, problem_m_ineq = 0, problem_Aineq = None,
     problem_bineq = None, problem_m_eq = 0, problem_Aeq = None, problem_beq = None,
     problem_m_nlcon = 0, problem_f0 = Finite 0, problem_nlconstr0 = None\<rparr>"

definition zero_options :: prima_options_t where
  "zero_options =
    \<lparr>options_rhobeg = Finite 0, options_rhoend = Finite 0, options_ftarget = Finite 0,
     options_maxfun = 0, options_npt = 0, options_iprint = 0, options_data = None,
     options_callback = None\<rparr>"

definition zero_result :: prima_result_t where
  "zero_result =
    \<lparr>result_x = None, result_f = Finite 0, result_cstrv = Finite 0,
     result_nlconstr = None, result__m_nlcon = 0, result_nf = 0, result_status = 0,
     result_message = None\<rparr>"

definition MAXFUN_DIM_DFT :: cint where
  "MAXFUN_DIM_DFT = 500"

subsection \<open>prima_init_options, prima_init_problem\<close>

definition prima_init_options ::
  "prima_h \<Rightarrow> prima_options_t option \<Rightarrow> cint \<times> prima_options_t option" where
  "prima_init_options H options =
    (case options of
       Some _ \<Rightarrow>
         (0, Some (zero_options
                     \<lparr>options_maxfun := 0,
                      options_rhobeg := NaN,
                      options_rhoend := NaN,
                      options_iprint := PRIMA_MSG_NONE H,
                      options_ftarget := NegInf,
                      options_npt := 0\<rparr>))
     | None \<Rightarrow> (rc_val H PRIMA_NULL_OPTIONS, None))"

definition prima_init_problem ::
  "prima_h \<Rightarrow> prima_problem_t option \<Rightarrow> cint \<Rightarrow> cint \<times> prima_problem_t option" where
  "prima_init_problem H problem n =
    (case problem of
       Some _ \<Rightarrow> (0, Some (zero_problem\<lparr>problem_n := n, problem_f0 := NaN\<rparr>))
     | None \<Rightarrow> (rc_val H PRIMA_NULL_PROBLEM, None))"

subsection \<open>prima_check_problem\<close>

text \<open>
  The first three tests of \<^verbatim>\<open>prima_check_problem\<close>, under the source's comment
  ``check if the user provided information inconsistent with the algorithm'':
  the status they return, or \<open>None\<close> when none of them fires.
\<close>

definition solver_mismatch :: "prima_h \<Rightarrow> prima_problem_t \<Rightarrow> cint \<Rightarrow> cint option" where
  "solver_mismatch H p algorithm =
    (if algorithm \<noteq> alg_val H PRIMA_COBYLA \<and>
        (problem_calcfc p \<noteq> None \<or> problem_nlconstr0 p \<noteq> None \<or> 0 <s problem_m_nlcon p)
     then Some (rc_val H PRIMA_PROBLEM_SOLVER_MISMATCH_NONLINEAR_CONSTRAINTS)
     else if (algorithm \<noteq> alg_val H PRIMA_COBYLA \<and> algorithm \<noteq> alg_val H PRIMA_LINCOA) \<and>
        (0 <s problem_m_ineq p \<or> 0 <s problem_m_eq p \<or> problem_Aineq p \<noteq> None \<or>
         problem_bineq p \<noteq> None \<or> problem_Aeq p \<noteq> None \<or> problem_beq p \<noteq> None)
     then Some (rc_val H PRIMA_PROBLEM_SOLVER_MISMATCH_LINEAR_CONSTRAINTS)
     else if (algorithm \<noteq> alg_val H PRIMA_COBYLA \<and> algorithm \<noteq> alg_val H PRIMA_LINCOA \<and>
              algorithm \<noteq> alg_val H PRIMA_BOBYQA) \<and>
        (problem_xl p \<noteq> None \<or> problem_xu p \<noteq> None)
     then Some (rc_val H PRIMA_PROBLEM_SOLVER_MISMATCH_BOUNDS)
     else None)"

definition prima_check_problem ::
  "prima_h \<Rightarrow> prima_problem_t option \<Rightarrow> prima_options_t option \<Rightarrow> cint \<Rightarrow> cint \<Rightarrow>
   cint \<times> prima_problem_t option \<times> prima_options_t option" where
  "prima_check_problem H problem options use_constr algorithm =
    (case problem of
       None \<Rightarrow> (rc_val H PRIMA_NULL_PROBLEM, problem, options)
     | Some p \<Rightarrow>
        (case solver_mismatch H p algorithm of
           Some e \<Rightarrow> (e, problem, options)
         | None \<Rightarrow>
            (case options of
               None \<Rightarrow> (rc_val H PRIMA_NULL_OPTIONS, problem, options)
             | Some opt \<Rightarrow>
                if problem_x0 p = None then (rc_val H PRIMA_NULL_X0, problem, options)
                else if (use_constr \<noteq> 0 \<and> problem_calcfc p = None) \<or>
                        (use_constr = 0 \<and> problem_calfun p = None)
                then (rc_val H PRIMA_NULL_FUNCTION, problem, options)
                else
                  let opt1 = (if options_maxfun opt = 0
                              then opt\<lparr>options_maxfun := MAXFUN_DIM_DFT * problem_n p\<rparr>
                              else opt);
                      opt2 = (if options_npt opt1 = 0
                              then opt1\<lparr>options_npt := 2 * problem_n p + 1\<rparr>
                              else opt1)
                  in (0, problem, Some opt2))))"

subsection \<open>prima_get_rc_string\<close>

text \<open>The result is a pointer to a string literal: \<open>Some s\<close>.\<close>

definition prima_get_rc_string :: "prima_h \<Rightarrow> cint \<Rightarrow> string option" where
  "prima_get_rc_string H rc =
    (if rc = rc_val H PRIMA_SMALL_TR_RADIUS then
       Some ''Trust region radius reaches its lower bound''
     else if rc = rc_val H PRIMA_FTARGET_ACHIEVED then
       Some ''The target function value is reached''
     else if rc = rc_val H PRIMA_TRSUBP_FAILED then
       Some ''A trust region step failed to reduce the model''
     else if rc = rc_val H PRIMA_MAXFUN_REACHED then
       Some ''Maximum number of function evaluations reached''
     else if rc = rc_val H PRIMA_MAXTR_REACHED then
       Some ''Maximum number of trust region iterations reached''
     else if rc = rc_val H PRIMA_NAN_INF_X then
       Some ''The input X contains NaN of Inf''
     else if rc = rc_val H PRIMA_NAN_INF_F then
       Some ''The objective or constraint functions return NaN or +Inf''
     else if rc = rc_val H PRIMA_NAN_INF_MODEL then
       Some ''NaN or Inf occurs in the model''
     else if rc = rc_val H PRIMA_NO_SPACE_BETWEEN_BOUNDS then
       Some ''No space between bounds''
     else if rc = rc_val H PRIMA_DAMAGING_ROUNDING then
       Some ''Rounding errors are becoming damaging''
     else if rc = rc_val H PRIMA_ZERO_LINEAR_CONSTRAINT then
       Some ''One of the linear constraints has a zero gradient''
     else if rc = rc_val H PRIMA_CALLBACK_TERMINATE then
       Some ''Callback function requested termination of optimization''
     else if rc = rc_val H PRIMA_INVALID_INPUT then
       Some ''Invalid input''
     else if rc = rc_val H PRIMA_ASSERTION_FAILS then
       Some ''Assertion fails''
     else if rc = rc_val H PRIMA_VALIDATION_FAILS then
       Some ''Validation fails''
     else if rc = rc_val H PRIMA_MEMORY_ALLOCATION_FAILS then
       Some ''Memory allocation fails''
     else if rc = rc_val H PRIMA_NULL_OPTIONS then
       Some ''NULL options''
     else if rc = rc_val H PRIMA_NULL_PROBLEM then
       Some ''NULL problem''
     else if rc = rc_val H PRIMA_NULL_X0 then
       Some ''NULL x0''
     else if rc = rc_val H PRIMA_NULL_RESULT then
       Some ''NULL result''
     else if rc = rc_val H PRIMA_NULL_FUNCTION then
       Some ''NULL function''
     else if rc = rc_val H PRIMA_PROBLEM_SOLVER_MISMATCH_NONLINEAR_CONSTRAINTS then
       Some ''Nonlinear constraints were provided for an algorithm that cannot handle them''
     else if rc = rc_val H PRIMA_PROBLEM_SOLVER_MISMATCH_LINEAR_CONSTRAINTS then
       Some ''Linear constraints were provided for an algorithm that cannot handle them''
     else if rc = rc_val H PRIMA_PROBLEM_SOLVER_MISMATCH_BOUNDS then
       Some ''Bounds were provided for an algorithm that cannot handle them''
     else Some ''Invalid return code'')"

subsection \<open>The heap: malloc, calloc, memcpy, free\<close>

text \<open>
  A heap is the list of the blocks of doubles allocated so far: the address of a block is
  its index, \<open>Some xs\<close> is a live block holding \<open>xs\<close>, \<open>None\<close> a block that was freed. An
  allocation appends a block, so its address is fresh. The C library decides whether an
  allocation succeeds; \<open>alloc_fails\<close> lists the outcomes of the requests to come, first
  request first (\<open>True\<close>: the request returns \<^verbatim>\<open>NULL\<close>; past the end of the list requests
  succeed).
\<close>

record heap =
  blocks :: "double list option list"
  alloc_fails :: "bool list"

definition sizeof_double :: size_t where
  "sizeof_double = 8"

definition request_fails :: "heap \<Rightarrow> bool" where
  "request_fails h = (case alloc_fails h of [] \<Rightarrow> False | b # _ \<Rightarrow> b)"

definition alloc_block :: "double list \<Rightarrow> heap \<Rightarrow> addr option \<times> heap" where
  "alloc_block xs h =
    (if request_fails h then (None, h\<lparr>alloc_fails := tl (alloc_fails h)\<rparr>)
     else (Some (length (blocks h)),
           \<lparr>blocks = blocks h @ [Some xs], alloc_fails = tl (alloc_fails h)\<rparr>))"

text \<open>
  \<^verbatim>\<open>malloc(size)\<close>: a block of \<open>size div 8\<close> doubles whose contents are indeterminate (here
  \<open>NaN\<close>; \<^verbatim>\<open>prima_init_result\<close> overwrites all of it before anything reads it).
\<close>

definition malloc :: "size_t \<Rightarrow> heap \<Rightarrow> addr option \<times> heap" where
  "malloc nbytes h = alloc_block (replicate (unat nbytes div unat sizeof_double) NaN) h"

text \<open>\<^verbatim>\<open>calloc(nmemb, sizeof(double))\<close>: a block of \<open>nmemb\<close> doubles, all 0.0.\<close>

definition calloc :: "size_t \<Rightarrow> heap \<Rightarrow> addr option \<times> heap" where
  "calloc nmemb h = alloc_block (replicate (unat nmemb) (Finite 0)) h"

definition live :: "heap \<Rightarrow> addr \<Rightarrow> double list option" where
  "live h a = (if a < length (blocks h) then blocks h ! a else None)"

text \<open>
  \<^verbatim>\<open>memcpy(dst, src, size)\<close> copies \<open>size div 8\<close> doubles. It is undefined unless the
  two blocks are live, are different blocks (the objects must not overlap) and hold that
  many.
\<close>

definition memcpy :: "addr \<Rightarrow> addr \<Rightarrow> size_t \<Rightarrow> heap \<Rightarrow> heap option" where
  "memcpy dst src nbytes h =
    (let k = unat nbytes div unat sizeof_double in
     case (live h dst, live h src) of
       (Some ds, Some ss) \<Rightarrow>
         if dst \<noteq> src \<and> k \<le> length ds \<and> k \<le> length ss
         then Some (h\<lparr>blocks := (blocks h)[dst := Some (take k ss @ drop k ds)]\<rparr>)
         else None
     | _ \<Rightarrow> None)"

text \<open>\<^verbatim>\<open>free(a)\<close> for a non-null \<open>a\<close>: undefined unless the block is live.\<close>

definition free :: "addr \<Rightarrow> heap \<Rightarrow> heap option" where
  "free a h =
    (case live h a of
       Some _ \<Rightarrow> Some (h\<lparr>blocks := (blocks h)[a := None]\<rparr>)
     | None \<Rightarrow> None)"

subsection \<open>prima_init_result, prima_free_result\<close>

definition prima_init_result ::
  "prima_h \<Rightarrow> prima_result_t option \<Rightarrow> prima_problem_t option \<Rightarrow> heap \<Rightarrow>
   (cint \<times> prima_result_t option \<times> prima_problem_t option \<times> heap) option" where
  "prima_init_result H result problem h =
    (case result of
       None \<Rightarrow> Some (rc_val H PRIMA_NULL_RESULT, result, problem, h)
     | Some _ \<Rightarrow>
        let r = zero_result\<lparr>result_f := Finite 0, result_cstrv := Finite 0\<rparr> in
        (case problem of
           None \<Rightarrow> Some (rc_val H PRIMA_NULL_PROBLEM, Some r, problem, h)
         | Some p \<Rightarrow>
            (case problem_x0 p of
               None \<Rightarrow> Some (rc_val H PRIMA_NULL_X0, Some r, problem, h)
             | Some src \<Rightarrow>
                let nbytes = scast (problem_n p) * sizeof_double;
                    (x, h1) = malloc nbytes h;
                    r1 = r\<lparr>result_x := x\<rparr>
                in
                (case x of
                   None \<Rightarrow> Some (rc_val H PRIMA_MEMORY_ALLOCATION_FAILS, Some r1, problem, h1)
                 | Some dst \<Rightarrow>
                    (case memcpy dst src nbytes h1 of
                       None \<Rightarrow> None
                     | Some h2 \<Rightarrow>
                        if 0 <s problem_m_nlcon p then
                          let (nlconstr, h3) = calloc (scast (problem_m_nlcon p)) h2;
                              r2 = r1\<lparr>result_nlconstr := nlconstr\<rparr>
                          in if nlconstr = None
                             then Some (rc_val H PRIMA_MEMORY_ALLOCATION_FAILS, Some r2, problem, h3)
                             else Some (0, Some r2, problem, h3)
                        else Some (0, Some r1, problem, h2))))))"

definition prima_free_result ::
  "prima_h \<Rightarrow> prima_result_t option \<Rightarrow> heap \<Rightarrow> (cint \<times> prima_result_t option \<times> heap) option" where
  "prima_free_result H result h =
    (case result of
       None \<Rightarrow> Some (rc_val H PRIMA_NULL_RESULT, result, h)
     | Some r \<Rightarrow>
        (case (case result_nlconstr r of
                 Some a \<Rightarrow>
                   (case free a h of
                      None \<Rightarrow> None
                    | Some h1 \<Rightarrow> Some (r\<lparr>result_nlconstr := None, result__m_nlcon := 0\<rparr>, h1))
               | None \<Rightarrow> Some (r, h)) of
           None \<Rightarrow> None
         | Some (r1, h1) \<Rightarrow>
            (case result_x r1 of
               Some a \<Rightarrow>
                 (case free a h1 of
                    None \<Rightarrow> None
                  | Some h2 \<Rightarrow> Some (0, Some (r1\<lparr>result_x := None\<rparr>), h2))
             | None \<Rightarrow> Some (0, Some r1, h1))))"

subsection \<open>The solver engines and prima_minimize\<close>

text \<open>
  The five engines (\<^verbatim>\<open>bobyqa_c\<close>, ... ``implemented in fortran'') are external. A call is
  recorded with the input arguments \<^verbatim>\<open>prima_minimize\<close> passes, in the order of the C
  prototype without the output pointers \<^verbatim>\<open>f\<close>, \<^verbatim>\<open>cstrv\<close>, \<^verbatim>\<open>nf\<close> and \<^verbatim>\<open>info\<close>.
  An engine is a parameter of the model: a function from the call and the heap to what
  the engine leaves in the heap (it writes through \<^verbatim>\<open>x\<close> and \<^verbatim>\<open>nlconstr\<close>) and in its
  output parameters.
\<close>

datatype engine_call =
    Bobyqa_c "fptr option" "addr option" cint "addr option" "addr option" "addr option"
      double double double cint cint cint "fptr option"
  | Cobyla_c cint "fptr option" "addr option" cint "addr option" "addr option"
      cint "addr option" "addr option" cint "addr option" "addr option"
      "addr option" "addr option" double "addr option"
      double double double cint cint "fptr option"
  | Lincoa_c "fptr option" "addr option" cint "addr option"
      cint "addr option" "addr option" cint "addr option" "addr option"
      "addr option" "addr option"
      double double double cint cint cint "fptr option"
  | Newuoa_c "fptr option" "addr option" cint "addr option"
      double double double cint cint cint "fptr option"
  | Uobyqa_c "fptr option" "addr option" cint "addr option"
      double double double cint cint "fptr option"

record engine_out =
  out_heap :: heap
  out_f :: double
  out_cstrv :: double
  out_nf :: cint
  out_info :: cint

type_synonym engine = "engine_call \<Rightarrow> heap \<Rightarrow> engine_out"

text \<open>Whether the call passes \<^verbatim>\<open>&(result->cstrv)\<close>: only \<^verbatim>\<open>cobyla_c\<close> and \<^verbatim>\<open>lincoa_c\<close> take it.\<close>

fun passes_cstrv :: "engine_call \<Rightarrow> bool" where
  "passes_cstrv (Cobyla_c _ _ _ _ _ _ _ _ _ _ _ _ _ _ _ _ _ _ _ _ _ _) = True"
| "passes_cstrv (Lincoa_c _ _ _ _ _ _ _ _ _ _ _ _ _ _ _ _ _ _ _) = True"
| "passes_cstrv _ = False"

text \<open>The \<^verbatim>\<open>switch (algorithm)\<close> of \<^verbatim>\<open>prima_minimize\<close>: the engine call of the matching case, \<open>None\<close> for \<^verbatim>\<open>default\<close>.\<close>

definition engine_switch ::
  "prima_h \<Rightarrow> cint \<Rightarrow> prima_problem_t \<Rightarrow> prima_options_t \<Rightarrow> prima_result_t \<Rightarrow> engine_call option" where
  "engine_switch H algorithm p opt r =
    (if algorithm = alg_val H PRIMA_BOBYQA then
       Some (Bobyqa_c (problem_calfun p) (options_data opt) (problem_n p) (result_x r)
               (problem_xl p) (problem_xu p) (options_rhobeg opt) (options_rhoend opt)
               (options_ftarget opt) (options_maxfun opt) (options_npt opt)
               (options_iprint opt) (options_callback opt))
     else if algorithm = alg_val H PRIMA_COBYLA then
       Some (Cobyla_c (problem_m_nlcon p) (problem_calcfc p) (options_data opt) (problem_n p)
               (result_x r) (result_nlconstr r)
               (problem_m_ineq p) (problem_Aineq p) (problem_bineq p)
               (problem_m_eq p) (problem_Aeq p) (problem_beq p)
               (problem_xl p) (problem_xu p) (problem_f0 p) (problem_nlconstr0 p)
               (options_rhobeg opt) (options_rhoend opt) (options_ftarget opt)
               (options_maxfun opt) (options_iprint opt) (options_callback opt))
     else if algorithm = alg_val H PRIMA_LINCOA then
       Some (Lincoa_c (problem_calfun p) (options_data opt) (problem_n p) (result_x r)
               (problem_m_ineq p) (problem_Aineq p) (problem_bineq p)
               (problem_m_eq p) (problem_Aeq p) (problem_beq p)
               (problem_xl p) (problem_xu p)
               (options_rhobeg opt) (options_rhoend opt) (options_ftarget opt)
               (options_maxfun opt) (options_npt opt) (options_iprint opt)
               (options_callback opt))
     else if algorithm = alg_val H PRIMA_NEWUOA then
       Some (Newuoa_c (problem_calfun p) (options_data opt) (problem_n p) (result_x r)
               (options_rhobeg opt) (options_rhoend opt) (options_ftarget opt)
               (options_maxfun opt) (options_npt opt) (options_iprint opt)
               (options_callback opt))
     else if algorithm = alg_val H PRIMA_UOBYQA then
       Some (Uobyqa_c (problem_calfun p) (options_data opt) (problem_n p) (result_x r)
               (options_rhobeg opt) (options_rhoend opt) (options_ftarget opt)
               (options_maxfun opt) (options_iprint opt) (options_callback opt))
     else None)"

text \<open>
  \<^verbatim>\<open>prima_minimize\<close> returns, after the status and the three structs, the heap and the
  list of the engine calls it made.
\<close>

definition prima_minimize ::
  "prima_h \<Rightarrow> engine \<Rightarrow> cint \<Rightarrow> prima_problem_t option \<Rightarrow> prima_options_t option \<Rightarrow>
   prima_result_t option \<Rightarrow> heap \<Rightarrow>
   (cint \<times> prima_problem_t option \<times> prima_options_t option \<times> prima_result_t option \<times>
    heap \<times> engine_call list) option" where
  "prima_minimize H E algorithm problem options result h =
    (let use_constr = (if algorithm = alg_val H PRIMA_COBYLA then 1 else 0);
         (info, problem1, options1) = prima_check_problem H problem options use_constr algorithm
     in
     if info \<noteq> 0 then Some (info, problem1, options1, result, h, [])
     else
       (case prima_init_result H result problem1 h of
          None \<Rightarrow> None
        | Some (info, result1, problem2, h1) \<Rightarrow>
           if info \<noteq> 0 then Some (info, problem2, options1, result1, h1, [])
           else
             (case (problem2, options1, result1) of
                (Some p, Some opt, Some r) \<Rightarrow>
                  (case engine_switch H algorithm p opt r of
                     None \<Rightarrow>
                       Some (rc_val H PRIMA_INVALID_INPUT, problem2, options1, result1, h1, [])
                   | Some c \<Rightarrow>
                      let out = E c h1;
                          info = out_info out;
                          r1 = r\<lparr>result_f := out_f out, result_nf := out_nf out\<rparr>;
                          r2 = (if passes_cstrv c then r1\<lparr>result_cstrv := out_cstrv out\<rparr> else r1);
                          r3 = r2\<lparr>result_status := info,
                                  result_message := prima_get_rc_string H info\<rparr>
                      in Some (info, problem2, options1, Some r3, out_heap out, [c]))
              | _ \<Rightarrow> None)))"

text \<open>The algorithm whose engine a call invokes.\<close>

fun engine_of :: "engine_call \<Rightarrow> prima_algorithm_t" where
  "engine_of (Bobyqa_c _ _ _ _ _ _ _ _ _ _ _ _ _) = PRIMA_BOBYQA"
| "engine_of (Cobyla_c _ _ _ _ _ _ _ _ _ _ _ _ _ _ _ _ _ _ _ _ _ _) = PRIMA_COBYLA"
| "engine_of (Lincoa_c _ _ _ _ _ _ _ _ _ _ _ _ _ _ _ _ _ _ _) = PRIMA_LINCOA"
| "engine_of (Newuoa_c _ _ _ _ _ _ _ _ _ _ _) = PRIMA_NEWUOA"
| "engine_of (Uobyqa_c _ _ _ _ _ _ _ _ _ _) = PRIMA_UOBYQA"

subsection \<open>The capability table of the specification\<close>

text \<open>
  The specification gives each algorithm a capability set over bounds, linear constraints
  and nonlinear constraints: COBYLA all three, LINCOA bounds and linear constraints, BOBYQA
  bounds, NEWUOA and UOBYQA none. \<open>spec_capability\<close> is that table, written from the
  specification's words; the theorems compare \<^verbatim>\<open>prima_check_problem\<close> with it.
\<close>

datatype feature = Bounds | Linear_constraints | Nonlinear_constraints

fun spec_capability :: "prima_algorithm_t \<Rightarrow> feature set" where
  "spec_capability PRIMA_COBYLA = {Bounds, Linear_constraints, Nonlinear_constraints}"
| "spec_capability PRIMA_LINCOA = {Bounds, Linear_constraints}"
| "spec_capability PRIMA_BOBYQA = {Bounds}"
| "spec_capability PRIMA_NEWUOA = {}"
| "spec_capability PRIMA_UOBYQA = {}"

text \<open>
  The features a problem supplies, by the tests \<^verbatim>\<open>prima_check_problem\<close> makes for the
  presence of each.
\<close>

definition supplied_features :: "prima_problem_t \<Rightarrow> feature set" where
  "supplied_features p =
    (if problem_calcfc p \<noteq> None \<or> problem_nlconstr0 p \<noteq> None \<or> 0 <s problem_m_nlcon p
     then {Nonlinear_constraints} else {}) \<union>
    (if 0 <s problem_m_ineq p \<or> 0 <s problem_m_eq p \<or> problem_Aineq p \<noteq> None \<or>
        problem_bineq p \<noteq> None \<or> problem_Aeq p \<noteq> None \<or> problem_beq p \<noteq> None
     then {Linear_constraints} else {}) \<union>
    (if problem_xl p \<noteq> None \<or> problem_xu p \<noteq> None then {Bounds} else {})"

subsection \<open>A header and an engine to run the model on\<close>

text \<open>
  One assignment of values to the enumerators that satisfies \<open>header_ok\<close>, and an engine
  that returns at once with \<^verbatim>\<open>info = 0\<close> after one evaluation. They instantiate the
  theorems below at concrete inputs.
\<close>

fun sample_rc :: "prima_rc_t \<Rightarrow> cint" where
  "sample_rc PRIMA_SMALL_TR_RADIUS = 0"
| "sample_rc PRIMA_FTARGET_ACHIEVED = 1"
| "sample_rc PRIMA_TRSUBP_FAILED = 2"
| "sample_rc PRIMA_MAXFUN_REACHED = 3"
| "sample_rc PRIMA_MAXTR_REACHED = 20"
| "sample_rc PRIMA_NAN_INF_X = - 1"
| "sample_rc PRIMA_NAN_INF_F = - 2"
| "sample_rc PRIMA_NAN_INF_MODEL = - 3"
| "sample_rc PRIMA_NO_SPACE_BETWEEN_BOUNDS = 6"
| "sample_rc PRIMA_DAMAGING_ROUNDING = 7"
| "sample_rc PRIMA_ZERO_LINEAR_CONSTRAINT = 8"
| "sample_rc PRIMA_CALLBACK_TERMINATE = 30"
| "sample_rc PRIMA_INVALID_INPUT = 100"
| "sample_rc PRIMA_ASSERTION_FAILS = 101"
| "sample_rc PRIMA_VALIDATION_FAILS = 102"
| "sample_rc PRIMA_MEMORY_ALLOCATION_FAILS = 103"
| "sample_rc PRIMA_NULL_OPTIONS = 110"
| "sample_rc PRIMA_NULL_PROBLEM = 111"
| "sample_rc PRIMA_NULL_X0 = 112"
| "sample_rc PRIMA_NULL_RESULT = 113"
| "sample_rc PRIMA_NULL_FUNCTION = 114"
| "sample_rc PRIMA_PROBLEM_SOLVER_MISMATCH_NONLINEAR_CONSTRAINTS = 115"
| "sample_rc PRIMA_PROBLEM_SOLVER_MISMATCH_LINEAR_CONSTRAINTS = 116"
| "sample_rc PRIMA_PROBLEM_SOLVER_MISMATCH_BOUNDS = 117"

fun sample_alg :: "prima_algorithm_t \<Rightarrow> cint" where
  "sample_alg PRIMA_BOBYQA = 0"
| "sample_alg PRIMA_COBYLA = 1"
| "sample_alg PRIMA_LINCOA = 2"
| "sample_alg PRIMA_NEWUOA = 3"
| "sample_alg PRIMA_UOBYQA = 4"

definition sample_h :: prima_h where
  "sample_h = \<lparr>rc_val = sample_rc, alg_val = sample_alg, PRIMA_MSG_NONE = 0\<rparr>"

definition sample_engine :: engine where
  "sample_engine c h =
    \<lparr>out_heap = h, out_f = Finite 0, out_cstrv = Finite 0, out_nf = 1, out_info = 0\<rparr>"

text \<open>
  The set-up of \<^verbatim>\<open>examples/bobyqa/bobyqa_example.c\<close>: \<^verbatim>\<open>x0 = {0.0, 0.0}\<close>, \<^verbatim>\<open>xl\<close> and
  \<^verbatim>\<open>xu\<close> in the blocks 0, 1 and 2 of the heap, \<^verbatim>\<open>n = 2\<close>, an objective function, bounds.
\<close>

definition example_heap :: heap where
  "example_heap =
    \<lparr>blocks = [Some [Finite 0, Finite 0], Some [Finite (- 1), Finite (- 1)],
               Some [Finite 4.5, Finite 4.5]],
     alloc_fails = []\<rparr>"

definition example_problem :: prima_problem_t where
  "example_problem =
    zero_problem\<lparr>problem_n := 2, problem_f0 := NaN, problem_x0 := Some 0,
                 problem_calfun := Some 7, problem_xl := Some 1, problem_xu := Some 2\<rparr>"

section \<open>Properties\<close>

subsection \<open>The header\<close>

lemma sample_h_ok: "header_ok sample_h"
  by (simp add: header_ok_def sample_h_def all_rc_def all_algorithms_def failure_rc_def)

lemma set_all_rc: "set all_rc = UNIV"
proof -
  have "k \<in> set all_rc" for k
    by (cases k) (simp_all add: all_rc_def)
  then show ?thesis by blast
qed

lemma set_all_algorithms: "set all_algorithms = UNIV"
proof -
  have "a \<in> set all_algorithms" for a
    by (cases a) (simp_all add: all_algorithms_def)
  then show ?thesis by blast
qed

lemma distinct_rc_val_eq_iff:
  "distinct (map (rc_val H) all_rc) \<Longrightarrow> rc_val H j = rc_val H k \<longleftrightarrow> j = k"
  using set_all_rc by (auto simp: distinct_map dest: inj_onD)

lemma rc_val_eq_iff: "header_ok H \<Longrightarrow> rc_val H j = rc_val H k \<longleftrightarrow> j = k"
  by (simp add: header_ok_def distinct_rc_val_eq_iff)

lemma alg_val_eq_iff: "header_ok H \<Longrightarrow> alg_val H a = alg_val H b \<longleftrightarrow> a = b"
  using set_all_algorithms by (auto simp: header_ok_def distinct_map dest: inj_onD)



subsection \<open>Initialisation\<close>

text \<open>
  Claim C8. \<^verbatim>\<open>prima_init_problem(problem, n)\<close> returns 0 and leaves a Problem whose fields
  are all zero or \<^verbatim>\<open>NULL\<close>, except the dimension, which is \<open>n\<close>, and the cached objective
  \<^verbatim>\<open>f0\<close>, which is NaN. \<^verbatim>\<open>prima_init_options\<close> returns 0 and leaves an Options with
  \<^verbatim>\<open>maxfun = 0\<close>, \<^verbatim>\<open>npt = 0\<close>, \<^verbatim>\<open>rhobeg = rhoend = NaN\<close>, \<^verbatim>\<open>ftarget = -infinity\<close>, the
  verbosity \<^verbatim>\<open>PRIMA_MSG_NONE\<close> and every other field zero. Neither result depends on what
  the struct held before, and the struct is all either function writes. With a null
  destination they return \<^verbatim>\<open>PRIMA_NULL_PROBLEM\<close> and \<^verbatim>\<open>PRIMA_NULL_OPTIONS\<close>.
\<close>

theorem prima_init_problem_options:
  "prima_init_problem H (Some p) n =
     (0, Some \<lparr>problem_n = n, problem_calfun = None, problem_calcfc = None,
               problem_x0 = None, problem_xl = None, problem_xu = None,
               problem_m_ineq = 0, problem_Aineq = None, problem_bineq = None,
               problem_m_eq = 0, problem_Aeq = None, problem_beq = None,
               problem_m_nlcon = 0, problem_f0 = NaN, problem_nlconstr0 = None\<rparr>) \<and>
   prima_init_problem H None n = (rc_val H PRIMA_NULL_PROBLEM, None) \<and>
   prima_init_options H (Some opt) =
     (0, Some \<lparr>options_rhobeg = NaN, options_rhoend = NaN, options_ftarget = NegInf,
               options_maxfun = 0, options_npt = 0, options_iprint = PRIMA_MSG_NONE H,
               options_data = None, options_callback = None\<rparr>) \<and>
   prima_init_options H None = (rc_val H PRIMA_NULL_OPTIONS, None)"
  by (simp add: prima_init_problem_def prima_init_options_def zero_problem_def zero_options_def)


text \<open>
  Claim C10. \<^verbatim>\<open>prima_init_problem\<close> does not validate the dimension: for every 32-bit
  \<open>n\<close>, zero and negative values included, it returns 0 and stores \<open>n\<close> as it is.
\<close>

theorem prima_init_problem_any_dimension:
  "fst (prima_init_problem H (Some p) n) = 0 \<and>
   map_option problem_n (snd (prima_init_problem H (Some p) n)) = Some n \<and>
   map_option problem_n (snd (prima_init_problem H (Some p) 0)) = Some 0 \<and>
   map_option problem_n (snd (prima_init_problem H (Some p) (- 1))) = Some (- 1)"
  by (simp add: prima_init_problem_def)


subsection \<open>Status strings\<close>

text \<open>
  Claim C6. \<^verbatim>\<open>prima_get_rc_string\<close> is total on the 32-bit integers: the value of each
  enumerator of \<^verbatim>\<open>prima_rc_t\<close> gives that status's own string (the enumerators' values
  being pairwise different, as the case labels of a \<^verbatim>\<open>switch\<close> are), every other value
  gives ``Invalid return code'', and the pointer returned is never \<^verbatim>\<open>NULL\<close>.
\<close>

theorem prima_get_rc_string_total:
  assumes "distinct (map (rc_val H) all_rc)"
  shows
    "prima_get_rc_string H (rc_val H PRIMA_SMALL_TR_RADIUS) =
       Some ''Trust region radius reaches its lower bound'' \<and>
     prima_get_rc_string H (rc_val H PRIMA_FTARGET_ACHIEVED) =
       Some ''The target function value is reached'' \<and>
     prima_get_rc_string H (rc_val H PRIMA_TRSUBP_FAILED) =
       Some ''A trust region step failed to reduce the model'' \<and>
     prima_get_rc_string H (rc_val H PRIMA_MAXFUN_REACHED) =
       Some ''Maximum number of function evaluations reached'' \<and>
     prima_get_rc_string H (rc_val H PRIMA_MAXTR_REACHED) =
       Some ''Maximum number of trust region iterations reached'' \<and>
     prima_get_rc_string H (rc_val H PRIMA_NAN_INF_X) =
       Some ''The input X contains NaN of Inf'' \<and>
     prima_get_rc_string H (rc_val H PRIMA_NAN_INF_F) =
       Some ''The objective or constraint functions return NaN or +Inf'' \<and>
     prima_get_rc_string H (rc_val H PRIMA_NAN_INF_MODEL) =
       Some ''NaN or Inf occurs in the model'' \<and>
     prima_get_rc_string H (rc_val H PRIMA_NO_SPACE_BETWEEN_BOUNDS) =
       Some ''No space between bounds'' \<and>
     prima_get_rc_string H (rc_val H PRIMA_DAMAGING_ROUNDING) =
       Some ''Rounding errors are becoming damaging'' \<and>
     prima_get_rc_string H (rc_val H PRIMA_ZERO_LINEAR_CONSTRAINT) =
       Some ''One of the linear constraints has a zero gradient'' \<and>
     prima_get_rc_string H (rc_val H PRIMA_CALLBACK_TERMINATE) =
       Some ''Callback function requested termination of optimization'' \<and>
     prima_get_rc_string H (rc_val H PRIMA_INVALID_INPUT) =
       Some ''Invalid input'' \<and>
     prima_get_rc_string H (rc_val H PRIMA_ASSERTION_FAILS) =
       Some ''Assertion fails'' \<and>
     prima_get_rc_string H (rc_val H PRIMA_VALIDATION_FAILS) =
       Some ''Validation fails'' \<and>
     prima_get_rc_string H (rc_val H PRIMA_MEMORY_ALLOCATION_FAILS) =
       Some ''Memory allocation fails'' \<and>
     prima_get_rc_string H (rc_val H PRIMA_NULL_OPTIONS) =
       Some ''NULL options'' \<and>
     prima_get_rc_string H (rc_val H PRIMA_NULL_PROBLEM) =
       Some ''NULL problem'' \<and>
     prima_get_rc_string H (rc_val H PRIMA_NULL_X0) =
       Some ''NULL x0'' \<and>
     prima_get_rc_string H (rc_val H PRIMA_NULL_RESULT) =
       Some ''NULL result'' \<and>
     prima_get_rc_string H (rc_val H PRIMA_NULL_FUNCTION) =
       Some ''NULL function'' \<and>
     prima_get_rc_string H (rc_val H PRIMA_PROBLEM_SOLVER_MISMATCH_NONLINEAR_CONSTRAINTS) =
       Some ''Nonlinear constraints were provided for an algorithm that cannot handle them'' \<and>
     prima_get_rc_string H (rc_val H PRIMA_PROBLEM_SOLVER_MISMATCH_LINEAR_CONSTRAINTS) =
       Some ''Linear constraints were provided for an algorithm that cannot handle them'' \<and>
     prima_get_rc_string H (rc_val H PRIMA_PROBLEM_SOLVER_MISMATCH_BOUNDS) =
       Some ''Bounds were provided for an algorithm that cannot handle them'' \<and>
     (\<forall>rc. rc \<notin> set (map (rc_val H) all_rc) \<longrightarrow>
        prima_get_rc_string H rc = Some ''Invalid return code'') \<and>
     (\<forall>rc. prima_get_rc_string H rc \<noteq> None)"
proof -
  have unknown: "\<forall>rc. rc \<notin> set (map (rc_val H) all_rc) \<longrightarrow>
        prima_get_rc_string H rc = Some ''Invalid return code''"
    by (simp add: all_rc_def prima_get_rc_string_def)
  have nonnull: "\<forall>rc. prima_get_rc_string H rc \<noteq> None"
    by (simp add: prima_get_rc_string_def)
  show ?thesis
    using unknown nonnull
    by (simp add: prima_get_rc_string_def distinct_rc_val_eq_iff [OF assms])
qed

theorem prima_get_rc_string_total_witness:
  "distinct (map (rc_val sample_h) all_rc) \<and>
   prima_get_rc_string sample_h 112 = Some ''NULL x0'' \<and>
   prima_get_rc_string sample_h 0 = Some ''Trust region radius reaches its lower bound'' \<and>
   prima_get_rc_string sample_h 4 = Some ''Invalid return code'' \<and>
   prima_get_rc_string sample_h (- 7) = Some ''Invalid return code''"
proof -
  have d: "distinct (map (rc_val sample_h) all_rc)"
    by (simp add: sample_h_def all_rc_def)
  have "(4 :: cint) \<notin> set (map (rc_val sample_h) all_rc)"
    "(- 7 :: cint) \<notin> set (map (rc_val sample_h) all_rc)"
    by (simp_all add: sample_h_def all_rc_def)
  then show ?thesis
    using prima_get_rc_string_total [OF d] d
    by (simp add: sample_h_def)
qed

subsection \<open>Validation\<close>

lemma solver_mismatch_spec:
  assumes "header_ok H"
  shows "solver_mismatch H p (alg_val H a) =
    (if Nonlinear_constraints \<in> supplied_features p - spec_capability a
     then Some (rc_val H PRIMA_PROBLEM_SOLVER_MISMATCH_NONLINEAR_CONSTRAINTS)
     else if Linear_constraints \<in> supplied_features p - spec_capability a
     then Some (rc_val H PRIMA_PROBLEM_SOLVER_MISMATCH_LINEAR_CONSTRAINTS)
     else if Bounds \<in> supplied_features p - spec_capability a
     then Some (rc_val H PRIMA_PROBLEM_SOLVER_MISMATCH_BOUNDS)
     else None)"
  by (cases a) (simp_all add: solver_mismatch_def supplied_features_def alg_val_eq_iff [OF assms])

lemma subset_features:
  "F \<subseteq> G \<longleftrightarrow>
   Nonlinear_constraints \<notin> F - G \<and> Linear_constraints \<notin> F - G \<and> Bounds \<notin> F - G"
proof
  assume "F \<subseteq> G" then show "Nonlinear_constraints \<notin> F - G \<and> Linear_constraints \<notin> F - G \<and> Bounds \<notin> F - G"
    by auto
next
  assume a: "Nonlinear_constraints \<notin> F - G \<and> Linear_constraints \<notin> F - G \<and> Bounds \<notin> F - G"
  show "F \<subseteq> G"
  proof
    fix x assume "x \<in> F"
    with a show "x \<in> G" by (cases x) auto
  qed
qed

lemma mismatch_codes:
  assumes "header_ok H"
  shows "rc_val H PRIMA_PROBLEM_SOLVER_MISMATCH_NONLINEAR_CONSTRAINTS \<noteq> 0"
    "rc_val H PRIMA_PROBLEM_SOLVER_MISMATCH_LINEAR_CONSTRAINTS \<noteq> 0"
    "rc_val H PRIMA_PROBLEM_SOLVER_MISMATCH_BOUNDS \<noteq> 0"
    "rc_val H PRIMA_NULL_OPTIONS \<noteq> 0"
    "rc_val H PRIMA_NULL_X0 \<noteq> 0"
    "rc_val H PRIMA_NULL_FUNCTION \<noteq> 0"
    "rc_val H PRIMA_NULL_PROBLEM \<noteq> 0"
    "rc_val H PRIMA_NULL_RESULT \<noteq> 0"
    "rc_val H PRIMA_MEMORY_ALLOCATION_FAILS \<noteq> 0"
    "rc_val H PRIMA_INVALID_INPUT \<noteq> 0"
  using assms by (simp_all add: header_ok_def failure_rc_def)

lemma check_problem_status:
  "fst (prima_check_problem H (Some p) options use_constr algorithm) =
    (case solver_mismatch H p algorithm of
       Some e \<Rightarrow> e
     | None \<Rightarrow>
        if options = None then rc_val H PRIMA_NULL_OPTIONS
        else if problem_x0 p = None then rc_val H PRIMA_NULL_X0
        else if (use_constr \<noteq> 0 \<and> problem_calcfc p = None) \<or>
                (use_constr = 0 \<and> problem_calfun p = None)
        then rc_val H PRIMA_NULL_FUNCTION
        else 0)"
  by (simp add: prima_check_problem_def Let_def split: option.split)

lemma sint_500:
  assumes "- 4294967 \<le> sint (n :: cint)" "sint n \<le> 4294967"
  shows "sint (MAXFUN_DIM_DFT * n) = 500 * sint n"
proof -
  have "sint (500 * n) = signed_take_bit 31 (500 * sint n)"
    by (simp add: sint_word_ariths)
  also have "\<dots> = 500 * sint n"
    using assms by (intro signed_take_bit_int_eq_self) simp_all
  finally show ?thesis by (simp add: MAXFUN_DIM_DFT_def)
qed

lemma sint_2n1:
  assumes "- 1073741824 \<le> sint (n :: cint)" "sint n \<le> 1073741823"
  shows "sint (2 * n + 1) = 2 * sint n + 1"
proof -
  have "sint (2 * n) = signed_take_bit 31 (2 * sint n)"
    by (simp add: sint_word_ariths)
  also have "\<dots> = 2 * sint n"
    using assms by (intro signed_take_bit_int_eq_self) simp_all
  finally have d: "sint (2 * n) = 2 * sint n" .
  have "sint (2 * n + 1) = signed_take_bit 31 (sint (2 * n) + 1)"
    by (simp add: sint_word_ariths)
  also have "\<dots> = 2 * sint n + 1"
    unfolding d using assms by (intro signed_take_bit_int_eq_self) simp_all
  finally show ?thesis .
qed

lemma check_problem_success:
  assumes "header_ok H"
    and "prima_check_problem H problem options use_constr algorithm = (0, problem', options')"
  shows "\<exists>p opt. problem = Some p \<and> options = Some opt \<and> problem' = Some p \<and>
      solver_mismatch H p algorithm = None \<and> problem_x0 p \<noteq> None \<and>
      (if use_constr \<noteq> 0 then problem_calcfc p \<noteq> None else problem_calfun p \<noteq> None) \<and>
      options' = Some (opt
        \<lparr>options_maxfun :=
           (if options_maxfun opt = 0 then MAXFUN_DIM_DFT * problem_n p else options_maxfun opt),
         options_npt :=
           (if options_npt opt = 0 then 2 * problem_n p + 1 else options_npt opt)\<rparr>)"
proof -
  note rc = mismatch_codes [OF assms(1)]
  obtain p where p: "problem = Some p"
    using assms(2) rc by (cases problem) (auto simp: prima_check_problem_def)
  have mm: "solver_mismatch H p algorithm = None"
  proof (cases "solver_mismatch H p algorithm")
    case (Some e)
    then have "e = 0" using assms(2) p by (simp add: prima_check_problem_def)
    then show ?thesis
      using Some rc by (auto simp: solver_mismatch_def split: if_splits)
  qed simp
  obtain opt where opt: "options = Some opt"
    using assms(2) rc p mm by (cases options) (auto simp: prima_check_problem_def)
  show ?thesis
    using assms(2) rc unfolding p opt
    by (auto simp: prima_check_problem_def mm Let_def split: if_splits)
qed

lemma check_problem_no_mismatch:
  assumes "solver_mismatch H p algorithm = None"
  shows "prima_check_problem H (Some p) options use_constr algorithm =
    (case options of
       None \<Rightarrow> (rc_val H PRIMA_NULL_OPTIONS, Some p, None)
     | Some opt \<Rightarrow>
        if problem_x0 p = None then (rc_val H PRIMA_NULL_X0, Some p, Some opt)
        else if (use_constr \<noteq> 0 \<and> problem_calcfc p = None) \<or>
                (use_constr = 0 \<and> problem_calfun p = None)
        then (rc_val H PRIMA_NULL_FUNCTION, Some p, Some opt)
        else (0, Some p, Some (opt
          \<lparr>options_maxfun :=
             (if options_maxfun opt = 0 then MAXFUN_DIM_DFT * problem_n p
              else options_maxfun opt),
           options_npt :=
             (if options_npt opt = 0 then 2 * problem_n p + 1 else options_npt opt)\<rparr>)))"
  by (cases options; cases "problem_x0 p")
    (auto simp: prima_check_problem_def assms Let_def)

lemma minimize_check_fails:
  assumes "prima_check_problem H problem options
      (if algorithm = alg_val H PRIMA_COBYLA then 1 else 0) algorithm = (e, problem1, options1)"
    and "e \<noteq> 0"
  shows "prima_minimize H E algorithm problem options result h =
    Some (e, problem1, options1, result, h, [])"
  using assms by (simp add: prima_minimize_def)

text \<open>
  Claim C1. For each of the five algorithms and every problem, \<^verbatim>\<open>prima_check_problem\<close>
  returns one of the three mismatch statuses iff the features the problem supplies are not
  a subset of the algorithm's capability set (COBYLA: bounds, linear and nonlinear
  constraints; LINCOA: bounds and linear constraints; BOBYQA: bounds; NEWUOA and UOBYQA:
  none). Which one is fixed by the order nonlinear constraints, linear constraints, bounds:
  the status is that of the first unsupported feature in this order. The function returns
  0 iff, besides, the options, the starting point and the evaluator the flag asks for are
  present.
\<close>

theorem prima_check_problem_capabilities:
  assumes "header_ok H"
  shows
    "let r = fst (prima_check_problem H (Some p) options use_constr (alg_val H a));
         unsupported = supplied_features p - spec_capability a
     in
       (r \<in> {rc_val H PRIMA_PROBLEM_SOLVER_MISMATCH_NONLINEAR_CONSTRAINTS,
              rc_val H PRIMA_PROBLEM_SOLVER_MISMATCH_LINEAR_CONSTRAINTS,
              rc_val H PRIMA_PROBLEM_SOLVER_MISMATCH_BOUNDS}
          \<longleftrightarrow> \<not> supplied_features p \<subseteq> spec_capability a) \<and>
       (Nonlinear_constraints \<in> unsupported \<longrightarrow>
          r = rc_val H PRIMA_PROBLEM_SOLVER_MISMATCH_NONLINEAR_CONSTRAINTS) \<and>
       (Nonlinear_constraints \<notin> unsupported \<and> Linear_constraints \<in> unsupported \<longrightarrow>
          r = rc_val H PRIMA_PROBLEM_SOLVER_MISMATCH_LINEAR_CONSTRAINTS) \<and>
       (Nonlinear_constraints \<notin> unsupported \<and> Linear_constraints \<notin> unsupported \<and>
        Bounds \<in> unsupported \<longrightarrow>
          r = rc_val H PRIMA_PROBLEM_SOLVER_MISMATCH_BOUNDS) \<and>
       (r = 0 \<longleftrightarrow>
          supplied_features p \<subseteq> spec_capability a \<and> options \<noteq> None \<and>
          problem_x0 p \<noteq> None \<and>
          (if use_constr \<noteq> 0 then problem_calcfc p \<noteq> None else problem_calfun p \<noteq> None))"
proof -
  note rc = rc_val_eq_iff [OF assms] mismatch_codes [OF assms]
  define nl where "nl \<longleftrightarrow> Nonlinear_constraints \<in> supplied_features p - spec_capability a"
  define lin where "lin \<longleftrightarrow> Linear_constraints \<in> supplied_features p - spec_capability a"
  define bnd where "bnd \<longleftrightarrow> Bounds \<in> supplied_features p - spec_capability a"
  have sub: "supplied_features p \<subseteq> spec_capability a \<longleftrightarrow> \<not> nl \<and> \<not> lin \<and> \<not> bnd"
    unfolding nl_def lin_def bnd_def by (rule subset_features)
  have mm: "solver_mismatch H p (alg_val H a) =
    (if nl then Some (rc_val H PRIMA_PROBLEM_SOLVER_MISMATCH_NONLINEAR_CONSTRAINTS)
     else if lin then Some (rc_val H PRIMA_PROBLEM_SOLVER_MISMATCH_LINEAR_CONSTRAINTS)
     else if bnd then Some (rc_val H PRIMA_PROBLEM_SOLVER_MISMATCH_BOUNDS)
     else None)"
    unfolding nl_def lin_def bnd_def by (rule solver_mismatch_spec [OF assms])
  show ?thesis
    unfolding Let_def check_problem_status mm sub
      nl_def [symmetric] lin_def [symmetric] bnd_def [symmetric]
    by (cases nl; cases lin; cases bnd) (simp_all add: rc)
qed

theorem prima_check_problem_capabilities_witness:
  "header_ok sample_h \<and>
   supplied_features example_problem = {Bounds} \<and>
   fst (prima_check_problem sample_h (Some example_problem) (Some zero_options) 0
          (alg_val sample_h PRIMA_NEWUOA)) = 117 \<and>
   fst (prima_check_problem sample_h (Some example_problem) (Some zero_options) 0
          (alg_val sample_h PRIMA_BOBYQA)) = 0 \<and>
   fst (prima_check_problem sample_h
          (Some (example_problem\<lparr>problem_m_ineq := 1, problem_calcfc := Some 9\<rparr>))
          (Some zero_options) 0 (alg_val sample_h PRIMA_UOBYQA)) = 115"
proof -
  have s1: "supplied_features example_problem = {Bounds}"
    by (simp add: supplied_features_def example_problem_def zero_problem_def word_sless_alt)
  have s2: "supplied_features (example_problem\<lparr>problem_m_ineq := 1, problem_calcfc := Some 9\<rparr>) =
      {Nonlinear_constraints, Linear_constraints, Bounds}"
    by (auto simp: supplied_features_def example_problem_def zero_problem_def word_sless_alt)
  have x: "problem_x0 example_problem \<noteq> None" "problem_calfun example_problem \<noteq> None"
    by (simp_all add: example_problem_def zero_problem_def)
  have c: "rc_val sample_h PRIMA_PROBLEM_SOLVER_MISMATCH_BOUNDS = 117"
    "rc_val sample_h PRIMA_PROBLEM_SOLVER_MISMATCH_NONLINEAR_CONSTRAINTS = 115"
    by (simp_all add: sample_h_def)
  show ?thesis
    using sample_h_ok
      prima_check_problem_capabilities [OF sample_h_ok, of example_problem
        "Some zero_options" 0 PRIMA_NEWUOA]
      prima_check_problem_capabilities [OF sample_h_ok, of example_problem
        "Some zero_options" 0 PRIMA_BOBYQA]
      prima_check_problem_capabilities [OF sample_h_ok,
        of "example_problem\<lparr>problem_m_ineq := 1, problem_calcfc := Some 9\<rparr>"
        "Some zero_options" 0 PRIMA_UOBYQA]
    unfolding Let_def s1 s2 c
    by (simp add: x)
qed

text \<open>
  Claim C3. When \<^verbatim>\<open>prima_check_problem\<close> returns 0, problem and options were non-null,
  the Problem is as it was, and the Options are as they were except that \<^verbatim>\<open>maxfun\<close> is
  \<^verbatim>\<open>500*n\<close> if it was 0 and \<^verbatim>\<open>npt\<close> is \<^verbatim>\<open>2*n+1\<close> if it was 0; a nonzero \<^verbatim>\<open>maxfun\<close>
  or \<^verbatim>\<open>npt\<close>, \<^verbatim>\<open>rhobeg\<close>, \<^verbatim>\<open>rhoend\<close> and every other field keep their values. The
  products are those of 32-bit \<^verbatim>\<open>int\<close>; they are the mathematical \<open>500 n\<close> and \<open>2 n + 1\<close>
  as long as these fit in 32 bits.
\<close>

theorem prima_check_problem_defaults:
  assumes "header_ok H"
    and "prima_check_problem H problem options use_constr algorithm = (0, problem', options')"
  shows "\<exists>p opt. problem = Some p \<and> options = Some opt \<and> problem' = Some p \<and>
      options' = Some (opt
        \<lparr>options_maxfun :=
           (if options_maxfun opt = 0 then MAXFUN_DIM_DFT * problem_n p else options_maxfun opt),
         options_npt :=
           (if options_npt opt = 0 then 2 * problem_n p + 1 else options_npt opt)\<rparr>) \<and>
      MAXFUN_DIM_DFT = 500 \<and>
      (- 4294967 \<le> sint (problem_n p) \<and> sint (problem_n p) \<le> 4294967 \<longrightarrow>
         sint (MAXFUN_DIM_DFT * problem_n p) = 500 * sint (problem_n p)) \<and>
      (- 1073741824 \<le> sint (problem_n p) \<and> sint (problem_n p) \<le> 1073741823 \<longrightarrow>
         sint (2 * problem_n p + 1) = 2 * sint (problem_n p) + 1)"
proof -
  from check_problem_success [OF assms]
  obtain p opt where *: "problem = Some p" "options = Some opt" "problem' = Some p"
    "options' = Some (opt
        \<lparr>options_maxfun :=
           (if options_maxfun opt = 0 then MAXFUN_DIM_DFT * problem_n p else options_maxfun opt),
         options_npt :=
           (if options_npt opt = 0 then 2 * problem_n p + 1 else options_npt opt)\<rparr>)"
    by blast
  have "MAXFUN_DIM_DFT = 500" by (simp add: MAXFUN_DIM_DFT_def)
  with * sint_500 [of "problem_n p"] sint_2n1 [of "problem_n p"] show ?thesis
    by blast
qed

theorem prima_check_problem_defaults_witness:
  "header_ok sample_h \<and>
   prima_check_problem sample_h (Some example_problem)
      (snd (prima_init_options sample_h (Some zero_options))) 0 (alg_val sample_h PRIMA_BOBYQA) =
     (0, Some example_problem,
      Some \<lparr>options_rhobeg = NaN, options_rhoend = NaN, options_ftarget = NegInf,
            options_maxfun = 1000, options_npt = 5, options_iprint = 0,
            options_data = None, options_callback = None\<rparr>) \<and>
   prima_check_problem sample_h (Some example_problem)
      (Some (zero_options\<lparr>options_maxfun := 400\<rparr>)) 0 (alg_val sample_h PRIMA_BOBYQA) =
     (0, Some example_problem, Some (zero_options\<lparr>options_maxfun := 400, options_npt := 5\<rparr>))"
proof -
  have e1: "prima_check_problem sample_h (Some example_problem)
      (snd (prima_init_options sample_h (Some zero_options))) 0 (alg_val sample_h PRIMA_BOBYQA) =
     (0, Some example_problem,
      Some \<lparr>options_rhobeg = NaN, options_rhoend = NaN, options_ftarget = NegInf,
            options_maxfun = 1000, options_npt = 5, options_iprint = 0,
            options_data = None, options_callback = None\<rparr>)"
    by (simp add: prima_check_problem_def prima_init_options_def solver_mismatch_def
        example_problem_def zero_problem_def zero_options_def sample_h_def MAXFUN_DIM_DFT_def
        word_sless_alt)
  have e2: "prima_check_problem sample_h (Some example_problem)
      (Some (zero_options\<lparr>options_maxfun := 400\<rparr>)) 0 (alg_val sample_h PRIMA_BOBYQA) =
     (0, Some example_problem, Some (zero_options\<lparr>options_maxfun := 400, options_npt := 5\<rparr>))"
    by (simp add: prima_check_problem_def solver_mismatch_def
        example_problem_def zero_problem_def zero_options_def sample_h_def MAXFUN_DIM_DFT_def
        word_sless_alt)
  show ?thesis
    using sample_h_ok prima_check_problem_defaults [OF sample_h_ok e1]
      prima_check_problem_defaults [OF sample_h_ok e2] e1 e2
    by simp
qed

text \<open>
  Claim C7. When none of the three capability tests fires, \<^verbatim>\<open>prima_check_problem\<close> tests
  in this order: null options give \<^verbatim>\<open>PRIMA_NULL_OPTIONS\<close>; else a null \<^verbatim>\<open>x0\<close> gives
  \<^verbatim>\<open>PRIMA_NULL_X0\<close>; else a null \<^verbatim>\<open>calcfc\<close> (flag set) or \<^verbatim>\<open>calfun\<close> (flag clear)
  gives \<^verbatim>\<open>PRIMA_NULL_FUNCTION\<close>. Nothing is written. \<^verbatim>\<open>prima_minimize\<close> then returns
  that status having called no engine (the evaluators are only ever called by an engine)
  and having left result and heap untouched.
\<close>

theorem prima_check_problem_setup_errors:
  assumes "header_ok H" and "solver_mismatch H p algorithm = None"
  shows
    "prima_check_problem H (Some p) None use_constr algorithm =
       (rc_val H PRIMA_NULL_OPTIONS, Some p, None) \<and>
     (problem_x0 p = None \<longrightarrow>
        prima_check_problem H (Some p) (Some opt) use_constr algorithm =
          (rc_val H PRIMA_NULL_X0, Some p, Some opt)) \<and>
     (problem_x0 p \<noteq> None \<and>
      (if use_constr \<noteq> 0 then problem_calcfc p = None else problem_calfun p = None) \<longrightarrow>
        prima_check_problem H (Some p) (Some opt) use_constr algorithm =
          (rc_val H PRIMA_NULL_FUNCTION, Some p, Some opt)) \<and>
     prima_minimize H E algorithm (Some p) None result h =
       Some (rc_val H PRIMA_NULL_OPTIONS, Some p, None, result, h, []) \<and>
     (problem_x0 p = None \<longrightarrow>
        prima_minimize H E algorithm (Some p) (Some opt) result h =
          Some (rc_val H PRIMA_NULL_X0, Some p, Some opt, result, h, [])) \<and>
     (problem_x0 p \<noteq> None \<and>
      (if algorithm = alg_val H PRIMA_COBYLA then problem_calcfc p = None
       else problem_calfun p = None) \<longrightarrow>
        prima_minimize H E algorithm (Some p) (Some opt) result h =
          Some (rc_val H PRIMA_NULL_FUNCTION, Some p, Some opt, result, h, []))"
proof -
  note rc = mismatch_codes [OF assms(1)]
  note chk = check_problem_no_mismatch [OF assms(2)]
  have 1: "prima_check_problem H (Some p) None uc algorithm =
       (rc_val H PRIMA_NULL_OPTIONS, Some p, None)" for uc
    by (simp add: chk)
  have 2: "prima_check_problem H (Some p) (Some opt) uc algorithm =
          (rc_val H PRIMA_NULL_X0, Some p, Some opt)" if "problem_x0 p = None" for uc
    using that by (simp add: chk)
  have 3: "prima_check_problem H (Some p) (Some opt) uc algorithm =
          (rc_val H PRIMA_NULL_FUNCTION, Some p, Some opt)"
    if "problem_x0 p \<noteq> None" "if uc \<noteq> 0 then problem_calcfc p = None else problem_calfun p = None"
    for uc
    using that by (cases "uc = 0"; cases "problem_x0 p") (simp_all add: chk)
  have 4: "prima_minimize H E algorithm (Some p) None result h =
       Some (rc_val H PRIMA_NULL_OPTIONS, Some p, None, result, h, [])"
    by (rule minimize_check_fails [OF 1 rc(4)])
  have 5: "prima_minimize H E algorithm (Some p) (Some opt) result h =
          Some (rc_val H PRIMA_NULL_X0, Some p, Some opt, result, h, [])"
    if "problem_x0 p = None"
    by (rule minimize_check_fails [OF 2 [OF that] rc(5)])
  have 6: "prima_minimize H E algorithm (Some p) (Some opt) result h =
          Some (rc_val H PRIMA_NULL_FUNCTION, Some p, Some opt, result, h, [])"
    if "problem_x0 p \<noteq> None" "if algorithm = alg_val H PRIMA_COBYLA then problem_calcfc p = None
       else problem_calfun p = None"
  proof (rule minimize_check_fails [OF 3 rc(6)])
    show "problem_x0 p \<noteq> None" by fact
    show "if (if algorithm = alg_val H PRIMA_COBYLA then 1 else (0::cint)) \<noteq> 0
      then problem_calcfc p = None else problem_calfun p = None"
      using that(2) by simp
  qed
  from 1 2 3 4 5 6 show ?thesis by blast
qed

theorem prima_check_problem_setup_errors_witness:
  "header_ok sample_h \<and>
   solver_mismatch sample_h example_problem (alg_val sample_h PRIMA_BOBYQA) = None \<and>
   prima_minimize sample_h sample_engine (alg_val sample_h PRIMA_BOBYQA)
       (Some example_problem) None (Some zero_result) example_heap =
     Some (110, Some example_problem, None, Some zero_result, example_heap, []) \<and>
   prima_minimize sample_h sample_engine (alg_val sample_h PRIMA_BOBYQA)
       (Some (example_problem\<lparr>problem_x0 := None\<rparr>)) (Some zero_options)
       (Some zero_result) example_heap =
     Some (112, Some (example_problem\<lparr>problem_x0 := None\<rparr>), Some zero_options,
           Some zero_result, example_heap, []) \<and>
   prima_minimize sample_h sample_engine (alg_val sample_h PRIMA_BOBYQA)
       (Some (example_problem\<lparr>problem_calfun := None\<rparr>)) (Some zero_options)
       (Some zero_result) example_heap =
     Some (114, Some (example_problem\<lparr>problem_calfun := None\<rparr>), Some zero_options,
           Some zero_result, example_heap, [])"
proof -
  have m: "solver_mismatch sample_h example_problem (alg_val sample_h PRIMA_BOBYQA) = None"
    "solver_mismatch sample_h (example_problem\<lparr>problem_x0 := None\<rparr>)
       (alg_val sample_h PRIMA_BOBYQA) = None"
    "solver_mismatch sample_h (example_problem\<lparr>problem_calfun := None\<rparr>)
       (alg_val sample_h PRIMA_BOBYQA) = None"
    by (simp_all add: solver_mismatch_def example_problem_def zero_problem_def sample_h_def
        word_sless_alt)
  have c: "rc_val sample_h PRIMA_NULL_OPTIONS = 110" "rc_val sample_h PRIMA_NULL_X0 = 112"
    "rc_val sample_h PRIMA_NULL_FUNCTION = 114"
    "alg_val sample_h PRIMA_BOBYQA \<noteq> alg_val sample_h PRIMA_COBYLA"
    by (simp_all add: sample_h_def)
  have x: "problem_x0 (example_problem\<lparr>problem_x0 := None\<rparr>) = None"
    "problem_x0 (example_problem\<lparr>problem_calfun := None\<rparr>) \<noteq> None"
    "problem_calfun (example_problem\<lparr>problem_calfun := None\<rparr>) = None"
    by (simp_all add: example_problem_def)
  have a: "prima_minimize sample_h sample_engine (alg_val sample_h PRIMA_BOBYQA)
       (Some example_problem) None (Some zero_result) example_heap =
     Some (110, Some example_problem, None, Some zero_result, example_heap, [])"
    using prima_check_problem_setup_errors [OF sample_h_ok m(1),
        of 0 zero_options sample_engine "Some zero_result" example_heap]
    unfolding c by (elim conjE)
  have b: "prima_minimize sample_h sample_engine (alg_val sample_h PRIMA_BOBYQA)
       (Some (example_problem\<lparr>problem_x0 := None\<rparr>)) (Some zero_options)
       (Some zero_result) example_heap =
     Some (112, Some (example_problem\<lparr>problem_x0 := None\<rparr>), Some zero_options,
           Some zero_result, example_heap, [])"
    using prima_check_problem_setup_errors [OF sample_h_ok m(2),
        of 0 zero_options sample_engine "Some zero_result" example_heap] x(1)
    unfolding c by (elim conjE) (erule mp)
  have d: "prima_minimize sample_h sample_engine (alg_val sample_h PRIMA_BOBYQA)
       (Some (example_problem\<lparr>problem_calfun := None\<rparr>)) (Some zero_options)
       (Some zero_result) example_heap =
     Some (114, Some (example_problem\<lparr>problem_calfun := None\<rparr>), Some zero_options,
           Some zero_result, example_heap, [])"
    using prima_check_problem_setup_errors [OF sample_h_ok m(3),
        of 0 zero_options sample_engine "Some zero_result" example_heap] x(2,3) c(4)
    unfolding c by (simp del: not_None_eq)
  from sample_h_ok m(1) a b d show ?thesis by blast
qed

subsection \<open>The result buffers\<close>

lemma nonneg_scast:
  assumes "0 \<le>s (n :: cint)"
  shows "unat (scast n :: size_t) = unat n"
proof -
  have s: "0 \<le> sint n" using assms by (simp add: word_sle_eq)
  have u: "uint n = sint n" using s sint_lt [of n]
    by (simp add: uint_sint take_bit_int_eq_self)
  have b: "sint n < 2 ^ 31" using sint_lt [of n] by simp
  have w: "(scast n :: size_t) = word_of_int (sint n)"
    by simp
  have "uint (word_of_int (sint n) :: size_t) = sint n"
    using s b by (simp add: uint_word_of_int take_bit_int_eq_self del: of_int_sint)
  then have "uint (scast n :: size_t) = sint n"
    by (simp only: w)
  then show ?thesis using u by (simp add: unat_eq_nat_uint)
qed

lemma nonneg_nbytes:
  assumes "0 \<le>s (n :: cint)"
  shows "unat ((scast n :: size_t) * sizeof_double) div unat sizeof_double = unat n"
proof -
  have s: "0 \<le> sint n" using assms by (simp add: word_sle_eq)
  have u: "uint n = sint n" using s sint_lt [of n]
    by (simp add: uint_sint take_bit_int_eq_self)
  have b: "sint n < 2 ^ 31" using sint_lt [of n] by simp
  have "(scast n :: size_t) * 8 = word_of_int (sint n * 8)"
    by simp
  then have "uint ((scast n :: size_t) * 8) = sint n * 8"
    using s b by (simp add: uint_word_of_int take_bit_int_eq_self del: of_int_mult)
  then have "unat ((scast n :: size_t) * 8) = nat (sint n) * 8"
    using s by (simp add: unat_eq_nat_uint nat_mult_distrib)
  moreover have "unat n = nat (sint n)" using u by (simp add: unat_eq_nat_uint)
  ultimately show ?thesis by (simp add: sizeof_double_def)
qed

lemma live_Some: "live h a = Some xs \<longleftrightarrow> a < length (blocks h) \<and> blocks h ! a = Some xs"
  by (simp add: live_def)

lemma live_freed:
  "live (h\<lparr>blocks := (blocks h)[a := None]\<rparr>) b = (if b = a then None else live h b)"
  by (simp add: live_def)

lemma free_live:
  "live h a = Some xs \<Longrightarrow> free a h = Some (h\<lparr>blocks := (blocks h)[a := None]\<rparr>)"
  by (simp add: free_def)

lemma memcpy_fresh:
  assumes "live h src = Some xs" and "k = unat nbytes div unat sizeof_double"
    and "k \<le> length xs"
  shows "memcpy (length (blocks h)) src nbytes
      \<lparr>blocks = blocks h @ [Some (replicate k NaN)], alloc_fails = fs\<rparr> =
    Some \<lparr>blocks = blocks h @ [Some (take k xs)], alloc_fails = fs\<rparr>"
  using assms by (auto simp: memcpy_def live_def nth_append Let_def split: if_splits)

lemma free_result_outcome:
  assumes "\<forall>a. result_x r = Some a \<longrightarrow> live h a \<noteq> None"
    and "\<forall>a. result_nlconstr r = Some a \<longrightarrow> live h a \<noteq> None"
    and "result_x r \<noteq> None \<longrightarrow> result_x r \<noteq> result_nlconstr r"
  shows "\<exists>h'. let r' = r\<lparr>result_x := None, result_nlconstr := None,
                        result__m_nlcon :=
                          (if result_nlconstr r = None then result__m_nlcon r else 0)\<rparr>
     in prima_free_result H (Some r) h = Some (0, Some r', h') \<and>
        (\<forall>a. live h' a =
           (if Some a = result_x r \<or> Some a = result_nlconstr r then None else live h a)) \<and>
        length (blocks h') = length (blocks h) \<and>
        alloc_fails h' = alloc_fails h \<and>
        prima_free_result H (Some r') h' = Some (0, Some r', h')"
proof (cases "result_nlconstr r")
  case None
  note nl = None
  show ?thesis
  proof (cases "result_x r")
    case None
    then show ?thesis using nl
      by (simp add: prima_free_result_def)
  next
    case (Some a)
    then obtain xs where "live h a = Some xs" using assms(1) by auto
    then show ?thesis using nl Some
      by (simp add: prima_free_result_def free_live live_freed)
  qed
next
  case (Some b)
  note nl = Some
  then obtain ys where ys: "live h b = Some ys" using assms(2) by auto
  show ?thesis
  proof (cases "result_x r")
    case None
    then show ?thesis using nl ys
      by (simp add: prima_free_result_def free_live live_freed)
  next
    case (Some a)
    then obtain xs where xs: "live h a = Some xs" using assms(1) by auto
    have ne: "a \<noteq> b" using assms(3) Some nl by simp
    have "live (h\<lparr>blocks := (blocks h)[b := None]\<rparr>) a = Some xs"
      using xs ne by (simp add: live_freed)
    from free_live [OF this] show ?thesis using nl Some ys ne
      by (auto simp: prima_free_result_def free_live live_freed live_def)
  qed
qed

lemma free_result_returns:
  assumes "\<forall>a. result_x r = Some a \<longrightarrow> live h a \<noteq> None"
    and "\<forall>a. result_nlconstr r = Some a \<longrightarrow> live h a \<noteq> None"
    and "result_x r \<noteq> None \<longrightarrow> result_x r \<noteq> result_nlconstr r"
  shows "\<exists>r' h'. prima_free_result H (Some r) h = Some (0, r', h')"
  using free_result_outcome [OF assms, of H] by (auto simp: Let_def)

lemma zero_result_f:
  "zero_result\<lparr>result_f := Finite 0, result_cstrv := Finite 0\<rparr> = zero_result"
  "zero_result\<lparr>result_x := None\<rparr> = zero_result"
  "zero_result\<lparr>result_x := x, result_nlconstr := None\<rparr> = zero_result\<lparr>result_x := x\<rparr>"
  by (simp_all add: zero_result_def)

lemma init_result_outcome:
  assumes "problem_x0 p = Some src" and "live h src = Some xs"
    and "0 \<le>s problem_n p" and "unat (problem_n p) \<le> length xs"
  shows "prima_init_result H (Some r0) (Some p) h =
    Some (let a = length (blocks h);
              copy = take (unat (problem_n p)) xs;
              zeros = replicate (unat (problem_m_nlcon p)) (Finite 0);
              fs = alloc_fails h
          in
          if request_fails h then
            (rc_val H PRIMA_MEMORY_ALLOCATION_FAILS, Some zero_result, Some p,
             h\<lparr>alloc_fails := tl fs\<rparr>)
          else if \<not> 0 <s problem_m_nlcon p then
            (0, Some (zero_result\<lparr>result_x := Some a\<rparr>), Some p,
             \<lparr>blocks = blocks h @ [Some copy], alloc_fails = tl fs\<rparr>)
          else if request_fails (h\<lparr>alloc_fails := tl fs\<rparr>) then
            (rc_val H PRIMA_MEMORY_ALLOCATION_FAILS,
             Some (zero_result\<lparr>result_x := Some a\<rparr>), Some p,
             \<lparr>blocks = blocks h @ [Some copy], alloc_fails = tl (tl fs)\<rparr>)
          else
            (0, Some (zero_result\<lparr>result_x := Some a, result_nlconstr := Some (a + 1)\<rparr>),
             Some p,
             \<lparr>blocks = blocks h @ [Some copy, Some zeros], alloc_fails = tl (tl fs)\<rparr>))"
proof -
  let ?nb = "scast (problem_n p) * sizeof_double :: size_t"
  let ?k = "unat (problem_n p)"
  have k: "unat ?nb div unat sizeof_double = ?k"
    by (rule nonneg_nbytes [OF assms(3)])
  have cp: "memcpy (length (blocks h)) src ?nb
      \<lparr>blocks = blocks h @ [Some (replicate ?k NaN)], alloc_fails = fs\<rparr> =
    Some \<lparr>blocks = blocks h @ [Some (take ?k xs)], alloc_fails = fs\<rparr>" for fs
    by (rule memcpy_fresh [OF assms(2) k [symmetric] assms(4)])
  show ?thesis
  proof (cases "request_fails h")
    case True
    then show ?thesis
      by (simp add: prima_init_result_def assms(1) malloc_def alloc_block_def zero_result_f)
  next
    case False
    note ok = False
    show ?thesis
    proof (cases "0 <s problem_m_nlcon p")
      case False
      then show ?thesis using ok
        by (simp add: prima_init_result_def assms(1) malloc_def alloc_block_def
            zero_result_f k cp)
    next
      case True
      then have "0 \<le>s problem_m_nlcon p" by (simp add: word_sless_alt word_sle_eq)
      then have m: "unat (scast (problem_m_nlcon p) :: size_t) = unat (problem_m_nlcon p)"
        by (rule nonneg_scast)
      show ?thesis using ok True
        by (simp add: prima_init_result_def assms(1) malloc_def alloc_block_def
            zero_result_f k cp calloc_def m request_fails_def Let_def)
    qed
  qed
qed

text \<open>
  Claim C5, as the code has it. On a non-null Result whose non-null buffer pointers are
  live, distinct blocks, \<^verbatim>\<open>prima_free_result\<close> returns 0, frees the \<^verbatim>\<open>x\<close> and
  \<^verbatim>\<open>nlconstr\<close> buffers that are present (and no other block) and leaves both pointers
  \<^verbatim>\<open>NULL\<close>. The recorded count \<^verbatim>\<open>_m_nlcon\<close> is set to 0 when the \<^verbatim>\<open>nlconstr\<close> buffer was
  present, inside the source's \<^verbatim>\<open>if (result->nlconstr)\<close>, and keeps its value when that
  buffer was absent. No other field changes. A second call on the released Result returns
  0 and changes neither the Result nor the heap.
\<close>

theorem prima_free_result_idempotent:
  assumes "\<forall>a. result_x r = Some a \<longrightarrow> live h a \<noteq> None"
    and "\<forall>a. result_nlconstr r = Some a \<longrightarrow> live h a \<noteq> None"
    and "result_x r \<noteq> None \<longrightarrow> result_x r \<noteq> result_nlconstr r"
  shows "\<exists>h'. let r' = r\<lparr>result_x := None, result_nlconstr := None,
                        result__m_nlcon :=
                          (if result_nlconstr r = None then result__m_nlcon r else 0)\<rparr>
     in prima_free_result H (Some r) h = Some (0, Some r', h') \<and>
        (\<forall>a. live h' a =
           (if Some a = result_x r \<or> Some a = result_nlconstr r then None else live h a)) \<and>
        length (blocks h') = length (blocks h) \<and>
        alloc_fails h' = alloc_fails h \<and>
        prima_free_result H (Some r') h' = Some (0, Some r', h')"
  by (rule free_result_outcome [OF assms])

theorem prima_free_result_idempotent_witness:
  "live \<lparr>blocks = [Some [Finite 0, Finite 0], Some [Finite 1], Some [Finite 0, Finite 0]],
          alloc_fails = []\<rparr> 2 \<noteq> None \<and>
   live \<lparr>blocks = [Some [Finite 0, Finite 0], Some [Finite 1], Some [Finite 0, Finite 0]],
          alloc_fails = []\<rparr> 1 \<noteq> None \<and>
   prima_free_result sample_h
      (Some (zero_result\<lparr>result_x := Some 2, result_nlconstr := Some 1,
                          result__m_nlcon := 1, result_nf := 9\<rparr>))
      \<lparr>blocks = [Some [Finite 0, Finite 0], Some [Finite 1], Some [Finite 0, Finite 0]],
       alloc_fails = []\<rparr> =
     Some (0, Some (zero_result\<lparr>result_nf := 9\<rparr>),
           \<lparr>blocks = [Some [Finite 0, Finite 0], None, None], alloc_fails = []\<rparr>) \<and>
   prima_free_result sample_h (Some (zero_result\<lparr>result_nf := 9\<rparr>))
      \<lparr>blocks = [Some [Finite 0, Finite 0], None, None], alloc_fails = []\<rparr> =
     Some (0, Some (zero_result\<lparr>result_nf := 9\<rparr>),
           \<lparr>blocks = [Some [Finite 0, Finite 0], None, None], alloc_fails = []\<rparr>)"
proof -
  let ?h = "\<lparr>blocks = [Some [Finite 0, Finite 0], Some [Finite 1], Some [Finite 0, Finite 0]],
          alloc_fails = []\<rparr>"
  let ?r = "zero_result\<lparr>result_x := Some 2, result_nlconstr := Some 1,
                          result__m_nlcon := 1, result_nf := 9\<rparr>"
  have l: "live ?h 2 \<noteq> None" "live ?h 1 \<noteq> None"
    by (simp_all add: live_def)
  have f: "prima_free_result sample_h (Some ?r) ?h =
     Some (0, Some (zero_result\<lparr>result_nf := 9\<rparr>),
           \<lparr>blocks = [Some [Finite 0, Finite 0], None, None], alloc_fails = []\<rparr>)"
    by (simp add: prima_free_result_def free_def live_def zero_result_def)
  have "\<forall>a. result_x ?r = Some a \<longrightarrow> live ?h a \<noteq> None"
    "\<forall>a. result_nlconstr ?r = Some a \<longrightarrow> live ?h a \<noteq> None"
    "result_x ?r \<noteq> None \<longrightarrow> result_x ?r \<noteq> result_nlconstr ?r"
    using l by simp_all
  from prima_free_result_idempotent [OF this, of sample_h] l f show ?thesis
    by (simp add: Let_def zero_result_def)
qed

text \<open>
  Claim C5 as it was stated has the release zero the recorded count of every non-null
  Result. A Result whose \<^verbatim>\<open>x\<close> is a live block, whose \<^verbatim>\<open>nlconstr\<close> is \<^verbatim>\<open>NULL\<close> and whose
  \<^verbatim>\<open>_m_nlcon\<close> is 5 is released with return 0 and \<^verbatim>\<open>x\<close> freed, and its count is still 5:
  the assignment \<^verbatim>\<open>result->_m_nlcon = 0\<close> is inside \<^verbatim>\<open>if (result->nlconstr)\<close>.
\<close>

theorem prima_free_result_count_counterexample:
  "live \<lparr>blocks = [Some [Finite 0, Finite 0]], alloc_fails = []\<rparr> 0 =
     Some [Finite 0, Finite 0] \<and>
   result_nlconstr (zero_result\<lparr>result_x := Some 0, result__m_nlcon := 5\<rparr>) = None \<and>
   prima_free_result sample_h
      (Some (zero_result\<lparr>result_x := Some 0, result__m_nlcon := 5\<rparr>))
      \<lparr>blocks = [Some [Finite 0, Finite 0]], alloc_fails = []\<rparr> =
     Some (0, Some (zero_result\<lparr>result__m_nlcon := 5\<rparr>),
           \<lparr>blocks = [None], alloc_fails = []\<rparr>) \<and>
   result__m_nlcon (zero_result\<lparr>result__m_nlcon := 5\<rparr>) = 5 \<and>
   result__m_nlcon (zero_result\<lparr>result__m_nlcon := 5\<rparr>) \<noteq> 0"
  by (simp add: prima_free_result_def free_def live_def zero_result_def)

text \<open>
  Claim C4. Let the result be non-null and \<^verbatim>\<open>problem->x0\<close> point to a live block \<open>xs\<close> of
  at least \<open>n \<ge> 0\<close> doubles. Then \<^verbatim>\<open>prima_init_result\<close> returns, and by the outcomes
  of its allocation requests:
  \<^item> the first request fails: \<^verbatim>\<open>PRIMA_MEMORY_ALLOCATION_FAILS\<close>, the Result all zero;
  \<^item> it succeeds and \<^verbatim>\<open>m_nlcon \<le> 0\<close>: status 0, \<^verbatim>\<open>x\<close> a fresh block holding the first
    \<open>n\<close> doubles of \<open>xs\<close>, \<^verbatim>\<open>nlconstr\<close> null;
  \<^item> it succeeds, \<^verbatim>\<open>m_nlcon > 0\<close> and the second request fails:
    \<^verbatim>\<open>PRIMA_MEMORY_ALLOCATION_FAILS\<close>, with \<^verbatim>\<open>x\<close> still attached to the Result;
  \<^item> both succeed: status 0, and \<^verbatim>\<open>nlconstr\<close> a second fresh block of \<^verbatim>\<open>m_nlcon\<close> zeros.
  The new blocks are not the block of \<^verbatim>\<open>x0\<close>; every block that existed before, the one
  of \<^verbatim>\<open>x0\<close> included, and the Problem are unchanged; and \<^verbatim>\<open>prima_free_result\<close> on the
  Result left behind returns 0 in each of the four cases.
\<close>

theorem prima_init_result_buffers:
  assumes "problem_x0 p = Some src" and "live h src = Some xs"
    and "0 \<le>s problem_n p" and "unat (problem_n p) \<le> length xs"
  shows "prima_init_result H (Some r0) (Some p) h =
    Some (let a = length (blocks h);
              copy = take (unat (problem_n p)) xs;
              zeros = replicate (unat (problem_m_nlcon p)) (Finite 0);
              fs = alloc_fails h
          in
          if request_fails h then
            (rc_val H PRIMA_MEMORY_ALLOCATION_FAILS, Some zero_result, Some p,
             h\<lparr>alloc_fails := tl fs\<rparr>)
          else if \<not> 0 <s problem_m_nlcon p then
            (0, Some (zero_result\<lparr>result_x := Some a\<rparr>), Some p,
             \<lparr>blocks = blocks h @ [Some copy], alloc_fails = tl fs\<rparr>)
          else if request_fails (h\<lparr>alloc_fails := tl fs\<rparr>) then
            (rc_val H PRIMA_MEMORY_ALLOCATION_FAILS,
             Some (zero_result\<lparr>result_x := Some a\<rparr>), Some p,
             \<lparr>blocks = blocks h @ [Some copy], alloc_fails = tl (tl fs)\<rparr>)
          else
            (0, Some (zero_result\<lparr>result_x := Some a, result_nlconstr := Some (a + 1)\<rparr>),
             Some p,
             \<lparr>blocks = blocks h @ [Some copy, Some zeros], alloc_fails = tl (tl fs)\<rparr>)) \<and>
    src \<noteq> length (blocks h) \<and> src \<noteq> length (blocks h) + 1 \<and>
    live h (length (blocks h)) = None \<and> live h (length (blocks h) + 1) = None \<and>
    (\<forall>rc r p' h'. prima_init_result H (Some r0) (Some p) h = Some (rc, r, p', h') \<longrightarrow>
       p' = Some p \<and> live h' src = Some xs \<and>
       (\<forall>b<length (blocks h). live h' b = live h b) \<and>
       (\<exists>r' h''. prima_free_result H r h' = Some (0, r', h'')))"
proof -
  note out = init_result_outcome [OF assms, of H r0]
  have src: "src < length (blocks h)" "blocks h ! src = Some xs"
    using assms(2) by (simp_all add: live_Some)
  have fresh: "src \<noteq> length (blocks h)" "src \<noteq> length (blocks h) + 1"
    "live h (length (blocks h)) = None" "live h (length (blocks h) + 1) = None"
    using src by (simp_all add: live_def)
  have post: "p' = Some p \<and> live h' src = Some xs \<and>
       (\<forall>b<length (blocks h). live h' b = live h b) \<and>
       (\<exists>r' h''. prima_free_result H r h' = Some (0, r', h''))"
    if eq: "prima_init_result H (Some r0) (Some p) h = Some (rc, r, p', h')" for rc r p' h'
  proof -
    consider (a) "request_fails h"
      | (b) "\<not> request_fails h" "\<not> 0 <s problem_m_nlcon p"
      | (c) "\<not> request_fails h" "0 <s problem_m_nlcon p"
          "request_fails (h\<lparr>alloc_fails := tl (alloc_fails h)\<rparr>)"
      | (d) "\<not> request_fails h" "0 <s problem_m_nlcon p"
          "\<not> request_fails (h\<lparr>alloc_fails := tl (alloc_fails h)\<rparr>)"
      by blast
    then show ?thesis
    proof cases
      case a
      then have *: "r = Some zero_result" "p' = Some p" "h' = h\<lparr>alloc_fails := tl (alloc_fails h)\<rparr>"
        using eq out by (simp_all add: Let_def)
      have "\<exists>r' h''. prima_free_result H (Some zero_result) h' = Some (0, r', h'')"
        by (rule free_result_returns) (simp_all add: zero_result_def)
      then show ?thesis using * src by (simp add: live_def)
    next
      case b
      then have *: "r = Some (zero_result\<lparr>result_x := Some (length (blocks h))\<rparr>)" "p' = Some p"
        "h' = \<lparr>blocks = blocks h @ [Some (take (unat (problem_n p)) xs)],
               alloc_fails = tl (alloc_fails h)\<rparr>"
        using eq out by (simp_all add: Let_def)
      have "\<exists>r' h''. prima_free_result H
          (Some (zero_result\<lparr>result_x := Some (length (blocks h))\<rparr>)) h' = Some (0, r', h'')"
        by (rule free_result_returns) (simp_all add: zero_result_def * live_def)
      then show ?thesis using * src by (simp add: live_def nth_append)
    next
      case c
      then have *: "r = Some (zero_result\<lparr>result_x := Some (length (blocks h))\<rparr>)" "p' = Some p"
        "h' = \<lparr>blocks = blocks h @ [Some (take (unat (problem_n p)) xs)],
               alloc_fails = tl (tl (alloc_fails h))\<rparr>"
        using eq out by (simp_all add: Let_def)
      have "\<exists>r' h''. prima_free_result H
          (Some (zero_result\<lparr>result_x := Some (length (blocks h))\<rparr>)) h' = Some (0, r', h'')"
        by (rule free_result_returns) (simp_all add: zero_result_def * live_def)
      then show ?thesis using * src by (simp add: live_def nth_append)
    next
      case d
      then have *: "r = Some (zero_result\<lparr>result_x := Some (length (blocks h)),
                      result_nlconstr := Some (length (blocks h) + 1)\<rparr>)" "p' = Some p"
        "h' = \<lparr>blocks = blocks h @ [Some (take (unat (problem_n p)) xs),
                  Some (replicate (unat (problem_m_nlcon p)) (Finite 0))],
               alloc_fails = tl (tl (alloc_fails h))\<rparr>"
        using eq out by (simp_all add: Let_def)
      have "\<exists>r' h''. prima_free_result H
          (Some (zero_result\<lparr>result_x := Some (length (blocks h)),
                      result_nlconstr := Some (length (blocks h) + 1)\<rparr>)) h' = Some (0, r', h'')"
        by (rule free_result_returns) (simp_all add: zero_result_def * live_def nth_append)
      then show ?thesis using * src by (simp add: live_def nth_append)
    qed
  qed
  from out fresh post show ?thesis by blast
qed

theorem prima_init_result_buffers_witness:
  "problem_x0 (example_problem\<lparr>problem_m_nlcon := 3\<rparr>) = Some 0 \<and>
   live example_heap 0 = Some [Finite 0, Finite 0] \<and>
   0 \<le>s problem_n (example_problem\<lparr>problem_m_nlcon := 3\<rparr>) \<and>
   unat (problem_n (example_problem\<lparr>problem_m_nlcon := 3\<rparr>)) \<le> length [Finite 0, Finite 0 :: double] \<and>
   prima_init_result sample_h (Some zero_result)
       (Some (example_problem\<lparr>problem_m_nlcon := 3\<rparr>)) example_heap =
     Some (0, Some (zero_result\<lparr>result_x := Some 3, result_nlconstr := Some 4\<rparr>),
           Some (example_problem\<lparr>problem_m_nlcon := 3\<rparr>),
           \<lparr>blocks = [Some [Finite 0, Finite 0], Some [Finite (- 1), Finite (- 1)],
                      Some [Finite 4.5, Finite 4.5], Some [Finite 0, Finite 0],
                      Some [Finite 0, Finite 0, Finite 0]],
            alloc_fails = []\<rparr>) \<and>
   prima_init_result sample_h (Some zero_result)
       (Some (example_problem\<lparr>problem_m_nlcon := 3\<rparr>))
       (example_heap\<lparr>alloc_fails := [False, True]\<rparr>) =
     Some (103, Some (zero_result\<lparr>result_x := Some 3\<rparr>),
           Some (example_problem\<lparr>problem_m_nlcon := 3\<rparr>),
           \<lparr>blocks = [Some [Finite 0, Finite 0], Some [Finite (- 1), Finite (- 1)],
                      Some [Finite 4.5, Finite 4.5], Some [Finite 0, Finite 0]],
            alloc_fails = []\<rparr>)"
proof -
  let ?p = "example_problem\<lparr>problem_m_nlcon := 3\<rparr>"
  let ?h = "example_heap\<lparr>alloc_fails := [False, True]\<rparr>"
  have a: "problem_x0 ?p = Some 0" "0 \<le>s problem_n ?p"
    "unat (problem_n ?p) \<le> length [Finite 0, Finite 0 :: double]"
    by (simp_all add: example_problem_def zero_problem_def word_sle_eq)
  have l: "live example_heap 0 = Some [Finite 0, Finite 0]"
    "live ?h 0 = Some [Finite 0, Finite 0]"
    by (simp_all add: live_def example_heap_def)
  have v: "problem_n ?p = 2" "problem_m_nlcon ?p = 3" "(0::cint) <s 3"
    "rc_val sample_h PRIMA_MEMORY_ALLOCATION_FAILS = 103"
    by (simp_all add: example_problem_def zero_problem_def word_sless_alt sample_h_def)
  have u: "replicate 3 (Finite 0) = [Finite 0, Finite 0, Finite 0]"
    by (simp add: numeral_3_eq_3)
  have e1: "prima_init_result sample_h (Some zero_result) (Some ?p) example_heap =
     Some (0, Some (zero_result\<lparr>result_x := Some 3, result_nlconstr := Some 4\<rparr>),
           Some ?p,
           \<lparr>blocks = [Some [Finite 0, Finite 0], Some [Finite (- 1), Finite (- 1)],
                      Some [Finite 4.5, Finite 4.5], Some [Finite 0, Finite 0],
                      Some [Finite 0, Finite 0, Finite 0]],
            alloc_fails = []\<rparr>)"
    using prima_init_result_buffers [OF a(1) l(1) a(2) a(3), of sample_h zero_result,
        THEN conjunct1]
    by (simp add: v u Let_def request_fails_def example_heap_def)
  have e2: "prima_init_result sample_h (Some zero_result) (Some ?p) ?h =
     Some (103, Some (zero_result\<lparr>result_x := Some 3\<rparr>),
           Some ?p,
           \<lparr>blocks = [Some [Finite 0, Finite 0], Some [Finite (- 1), Finite (- 1)],
                      Some [Finite 4.5, Finite 4.5], Some [Finite 0, Finite 0]],
            alloc_fails = []\<rparr>)"
    using prima_init_result_buffers [OF a(1) l(2) a(2) a(3), of sample_h zero_result,
        THEN conjunct1]
    by (simp add: v u Let_def request_fails_def example_heap_def)
  from a l(1) e1 e2 show ?thesis by blast
qed

subsection \<open>Dispatch\<close>

lemma engine_switch_known:
  assumes "header_ok H"
  shows "\<exists>c. engine_switch H (alg_val H a) p opt r = Some c \<and> engine_of c = a"
  by (cases a) (simp_all add: engine_switch_def alg_val_eq_iff [OF assms])

lemma engine_switch_unknown:
  "algorithm \<notin> set (map (alg_val H) all_algorithms) \<Longrightarrow>
   engine_switch H algorithm p opt r = None"
  by (simp add: engine_switch_def all_algorithms_def)

lemma init_result_zero:
  assumes "header_ok H"
    and "prima_init_result H result (Some p) h = Some (0, result1, problem2, h1)"
  shows "problem2 = Some p \<and>
    (\<exists>r. result1 = Some r \<and> result_status r = 0 \<and> result_message r = None)"
proof -
  note rc = mismatch_codes [OF assms(1)]
  obtain r0 where r0: "result = Some r0"
    using assms(2) rc by (cases result) (auto simp: prima_init_result_def)
  obtain src where src: "problem_x0 p = Some src"
    using assms(2) rc r0 by (cases "problem_x0 p") (auto simp: prima_init_result_def)
  show ?thesis
    using assms(2) rc unfolding r0
    by (auto simp: prima_init_result_def src Let_def zero_result_def
        split: prod.splits option.splits if_splits)
qed

lemma minimize_after_init:
  assumes "header_ok H"
    and "prima_check_problem H problem options
      (if algorithm = alg_val H PRIMA_COBYLA then 1 else 0) algorithm = (0, problem1, options1)"
    and "prima_init_result H result problem1 h = Some (0, result1, problem2, h1)"
  shows "\<exists>p opt r. problem2 = Some p \<and> options1 = Some opt \<and> result1 = Some r \<and>
    result_status r = 0 \<and> result_message r = None \<and>
    prima_minimize H E algorithm problem options result h =
      (case engine_switch H algorithm p opt r of
         None \<Rightarrow> Some (rc_val H PRIMA_INVALID_INPUT, problem2, options1, result1, h1, [])
       | Some c \<Rightarrow>
          Some (out_info (E c h1), problem2, options1,
                Some ((if passes_cstrv c
                       then r\<lparr>result_f := out_f (E c h1), result_nf := out_nf (E c h1),
                              result_cstrv := out_cstrv (E c h1)\<rparr>
                       else r\<lparr>result_f := out_f (E c h1), result_nf := out_nf (E c h1)\<rparr>)
                      \<lparr>result_status := out_info (E c h1),
                       result_message := prima_get_rc_string H (out_info (E c h1))\<rparr>),
                out_heap (E c h1), [c]))"
proof -
  from check_problem_success [OF assms(1,2)]
  obtain p opt where p: "problem1 = Some p" and opt: "options1 = Some opt"
    by blast
  from init_result_zero [OF assms(1) assms(3) [unfolded p]]
  obtain r where r: "problem2 = Some p" "result1 = Some r" "result_status r = 0"
    "result_message r = None"
    by blast
  have "prima_minimize H E algorithm problem options result h =
      (case engine_switch H algorithm p opt r of
         None \<Rightarrow> Some (rc_val H PRIMA_INVALID_INPUT, problem2, options1, result1, h1, [])
       | Some c \<Rightarrow>
          Some (out_info (E c h1), problem2, options1,
                Some ((if passes_cstrv c
                       then r\<lparr>result_f := out_f (E c h1), result_nf := out_nf (E c h1),
                              result_cstrv := out_cstrv (E c h1)\<rparr>
                       else r\<lparr>result_f := out_f (E c h1), result_nf := out_nf (E c h1)\<rparr>)
                      \<lparr>result_status := out_info (E c h1),
                       result_message := prima_get_rc_string H (out_info (E c h1))\<rparr>),
                out_heap (E c h1), [c]))"
    using assms(2) assms(3) [unfolded p]
    by (simp add: prima_minimize_def p opt r Let_def split: option.split)
  with p opt r show ?thesis by blast
qed

lemma example_check:
  "prima_check_problem sample_h (Some example_problem) (Some zero_options)
      (if alg_val sample_h PRIMA_BOBYQA = alg_val sample_h PRIMA_COBYLA then 1 else 0)
      (alg_val sample_h PRIMA_BOBYQA) =
    (0, Some example_problem,
     Some (zero_options\<lparr>options_maxfun := 1000, options_npt := 5\<rparr>))"
  by (simp add: prima_check_problem_def solver_mismatch_def example_problem_def
      zero_problem_def zero_options_def sample_h_def MAXFUN_DIM_DFT_def word_sless_alt)

lemma example_init_result:
  "prima_init_result sample_h (Some zero_result) (Some example_problem) example_heap =
    Some (0, Some (zero_result\<lparr>result_x := Some 3\<rparr>), Some example_problem,
          \<lparr>blocks = [Some [Finite 0, Finite 0], Some [Finite (- 1), Finite (- 1)],
                     Some [Finite 4.5, Finite 4.5], Some [Finite 0, Finite 0]],
           alloc_fails = []\<rparr>)"
proof -
  have a: "problem_x0 example_problem = Some 0" "0 \<le>s problem_n example_problem"
    "unat (problem_n example_problem) \<le> length [Finite 0, Finite 0 :: double]"
    by (simp_all add: example_problem_def zero_problem_def word_sle_eq)
  have l: "live example_heap 0 = Some [Finite 0, Finite 0]"
    by (simp add: live_def example_heap_def)
  have v: "problem_n example_problem = 2" "problem_m_nlcon example_problem = 0"
    by (simp_all add: example_problem_def zero_problem_def)
  show ?thesis
    using init_result_outcome [OF a(1) l a(2) a(3), of sample_h zero_result]
    by (simp add: v Let_def request_fails_def example_heap_def)
qed

lemma unknown_check:
  assumes "a \<notin> set (map (alg_val sample_h) all_algorithms)"
  shows "prima_check_problem sample_h
      (Some (example_problem\<lparr>problem_xl := None, problem_xu := None\<rparr>)) (Some zero_options)
      (if a = alg_val sample_h PRIMA_COBYLA then 1 else 0) a =
    (0, Some (example_problem\<lparr>problem_xl := None, problem_xu := None\<rparr>),
     Some (zero_options\<lparr>options_maxfun := 1000, options_npt := 5\<rparr>))"
  using assms
  by (simp add: prima_check_problem_def solver_mismatch_def example_problem_def
      zero_problem_def zero_options_def all_algorithms_def MAXFUN_DIM_DFT_def word_sless_alt)

lemma unknown_init_result:
  "prima_init_result sample_h (Some zero_result)
      (Some (example_problem\<lparr>problem_xl := None, problem_xu := None\<rparr>)) example_heap =
    Some (0, Some (zero_result\<lparr>result_x := Some 3\<rparr>),
          Some (example_problem\<lparr>problem_xl := None, problem_xu := None\<rparr>),
          \<lparr>blocks = [Some [Finite 0, Finite 0], Some [Finite (- 1), Finite (- 1)],
                     Some [Finite 4.5, Finite 4.5], Some [Finite 0, Finite 0]],
           alloc_fails = []\<rparr>)"
proof -
  let ?p = "example_problem\<lparr>problem_xl := None, problem_xu := None\<rparr>"
  have a: "problem_x0 ?p = Some 0" "0 \<le>s problem_n ?p"
    "unat (problem_n ?p) \<le> length [Finite 0, Finite 0 :: double]"
    by (simp_all add: example_problem_def zero_problem_def word_sle_eq)
  have l: "live example_heap 0 = Some [Finite 0, Finite 0]"
    by (simp add: live_def example_heap_def)
  have v: "problem_n ?p = 2" "problem_m_nlcon ?p = 0"
    by (simp_all add: example_problem_def zero_problem_def)
  show ?thesis
    using init_result_outcome [OF a(1) l a(2) a(3), of sample_h zero_result]
    by (simp add: v Let_def request_fails_def example_heap_def)
qed

lemma unknown_algorithm: "(9 :: cint) \<notin> set (map (alg_val sample_h) all_algorithms)"
  by (simp add: sample_h_def all_algorithms_def)

text \<open>
  Claim C2. Suppose validation and the creation of the result succeed inside
  \<^verbatim>\<open>prima_minimize\<close>: \<^verbatim>\<open>prima_check_problem\<close> and \<^verbatim>\<open>prima_init_result\<close> both return 0.
  If the algorithm identifier is not the value of one of the five enumerators,
  \<^verbatim>\<open>prima_minimize\<close> returns \<^verbatim>\<open>PRIMA_INVALID_INPUT\<close> and calls no engine. If it is the value
  of the enumerator \<open>a\<close>, \<^verbatim>\<open>prima_minimize\<close> makes exactly one engine call, to the engine
  of \<open>a\<close>, returns the status that engine reports, and stores it and its string in the
  result.
\<close>

theorem prima_minimize_dispatch:
  assumes "header_ok H"
    and "prima_check_problem H problem options
      (if algorithm = alg_val H PRIMA_COBYLA then 1 else 0) algorithm = (0, problem1, options1)"
    and "prima_init_result H result problem1 h = Some (0, result1, problem2, h1)"
  shows
    "(algorithm \<notin> set (map (alg_val H) all_algorithms) \<longrightarrow>
        prima_minimize H E algorithm problem options result h =
          Some (rc_val H PRIMA_INVALID_INPUT, problem2, options1, result1, h1, [])) \<and>
     (\<forall>a. algorithm = alg_val H a \<longrightarrow>
        (\<exists>c r. engine_of c = a \<and>
           prima_minimize H E algorithm problem options result h =
             Some (out_info (E c h1), problem2, options1, Some r, out_heap (E c h1), [c]) \<and>
           result_status r = out_info (E c h1) \<and>
           result_message r = prima_get_rc_string H (out_info (E c h1))))"
proof -
  from minimize_after_init [OF assms, of E]
  obtain p opt r where *: "problem2 = Some p" "options1 = Some opt" "result1 = Some r"
    and m: "prima_minimize H E algorithm problem options result h =
      (case engine_switch H algorithm p opt r of
         None \<Rightarrow> Some (rc_val H PRIMA_INVALID_INPUT, problem2, options1, result1, h1, [])
       | Some c \<Rightarrow>
          Some (out_info (E c h1), problem2, options1,
                Some ((if passes_cstrv c
                       then r\<lparr>result_f := out_f (E c h1), result_nf := out_nf (E c h1),
                              result_cstrv := out_cstrv (E c h1)\<rparr>
                       else r\<lparr>result_f := out_f (E c h1), result_nf := out_nf (E c h1)\<rparr>)
                      \<lparr>result_status := out_info (E c h1),
                       result_message := prima_get_rc_string H (out_info (E c h1))\<rparr>),
                out_heap (E c h1), [c]))"
    by blast
  have 1: "prima_minimize H E algorithm problem options result h =
          Some (rc_val H PRIMA_INVALID_INPUT, problem2, options1, result1, h1, [])"
    if "algorithm \<notin> set (map (alg_val H) all_algorithms)"
    using m by (simp add: engine_switch_unknown [OF that])
  have 2: "\<exists>c r. engine_of c = a \<and>
           prima_minimize H E algorithm problem options result h =
             Some (out_info (E c h1), problem2, options1, Some r, out_heap (E c h1), [c]) \<and>
           result_status r = out_info (E c h1) \<and>
           result_message r = prima_get_rc_string H (out_info (E c h1))"
    if a: "algorithm = alg_val H a" for a
  proof -
    from engine_switch_known [OF assms(1), of a p opt r]
    obtain c where c: "engine_switch H algorithm p opt r = Some c" "engine_of c = a"
      unfolding a by blast
    show ?thesis
      using m c by (intro exI [of _ c]) simp
  qed
  from 1 2 show ?thesis by blast
qed

theorem prima_minimize_dispatch_witness:
  "header_ok sample_h \<and>
   (9 :: cint) \<notin> set (map (alg_val sample_h) all_algorithms) \<and>
   prima_minimize sample_h sample_engine 9
       (Some (example_problem\<lparr>problem_xl := None, problem_xu := None\<rparr>))
       (Some zero_options) (Some zero_result) example_heap =
     Some (100, Some (example_problem\<lparr>problem_xl := None, problem_xu := None\<rparr>),
           Some (zero_options\<lparr>options_maxfun := 1000, options_npt := 5\<rparr>),
           Some (zero_result\<lparr>result_x := Some 3\<rparr>),
           \<lparr>blocks = [Some [Finite 0, Finite 0], Some [Finite (- 1), Finite (- 1)],
                      Some [Finite 4.5, Finite 4.5], Some [Finite 0, Finite 0]],
            alloc_fails = []\<rparr>,
           []) \<and>
   prima_minimize sample_h sample_engine (alg_val sample_h PRIMA_BOBYQA)
       (Some example_problem) (Some zero_options) (Some zero_result) example_heap =
     Some (0, Some example_problem,
           Some (zero_options\<lparr>options_maxfun := 1000, options_npt := 5\<rparr>),
           Some (zero_result\<lparr>result_x := Some 3, result_nf := 1,
                   result_message := Some ''Trust region radius reaches its lower bound''\<rparr>),
           \<lparr>blocks = [Some [Finite 0, Finite 0], Some [Finite (- 1), Finite (- 1)],
                      Some [Finite 4.5, Finite 4.5], Some [Finite 0, Finite 0]],
            alloc_fails = []\<rparr>,
           [Bobyqa_c (Some 7) None 2 (Some 3) (Some 1) (Some 2) (Finite 0) (Finite 0)
              (Finite 0) 1000 5 0 None]) \<and>
   (\<exists>c r. engine_of c = PRIMA_BOBYQA \<and>
      prima_minimize sample_h sample_engine (alg_val sample_h PRIMA_BOBYQA)
          (Some example_problem) (Some zero_options) (Some zero_result) example_heap =
        Some (0, Some example_problem,
              Some (zero_options\<lparr>options_maxfun := 1000, options_npt := 5\<rparr>),
              Some r,
              \<lparr>blocks = [Some [Finite 0, Finite 0], Some [Finite (- 1), Finite (- 1)],
                         Some [Finite 4.5, Finite 4.5], Some [Finite 0, Finite 0]],
               alloc_fails = []\<rparr>,
              [c]))"
proof -
  let ?h1 = "\<lparr>blocks = [Some [Finite 0, Finite 0], Some [Finite (- 1), Finite (- 1)],
                      Some [Finite 4.5, Finite 4.5], Some [Finite 0, Finite 0]],
            alloc_fails = []\<rparr>"
  have e: "out_info (sample_engine c ?h1) = 0" "out_heap (sample_engine c ?h1) = ?h1" for c
    by (simp_all add: sample_engine_def)
  have i: "rc_val sample_h PRIMA_INVALID_INPUT = 100"
    by (simp add: sample_h_def)
  have 0: "prima_minimize sample_h sample_engine 9
       (Some (example_problem\<lparr>problem_xl := None, problem_xu := None\<rparr>))
       (Some zero_options) (Some zero_result) example_heap =
     Some (100, Some (example_problem\<lparr>problem_xl := None, problem_xu := None\<rparr>),
           Some (zero_options\<lparr>options_maxfun := 1000, options_npt := 5\<rparr>),
           Some (zero_result\<lparr>result_x := Some 3\<rparr>), ?h1, [])"
    using prima_minimize_dispatch [OF sample_h_ok unknown_check [OF unknown_algorithm]
        unknown_init_result, of sample_engine, THEN conjunct1, rule_format,
        OF unknown_algorithm]
    unfolding i .
  have 1: "\<exists>c r. engine_of c = PRIMA_BOBYQA \<and>
      prima_minimize sample_h sample_engine (alg_val sample_h PRIMA_BOBYQA)
          (Some example_problem) (Some zero_options) (Some zero_result) example_heap =
        Some (0, Some example_problem,
              Some (zero_options\<lparr>options_maxfun := 1000, options_npt := 5\<rparr>),
              Some r, ?h1, [c])"
    using prima_minimize_dispatch [OF sample_h_ok example_check example_init_result,
        of sample_engine, THEN conjunct2, rule_format, of PRIMA_BOBYQA]
    unfolding e by blast
  have 2: "prima_minimize sample_h sample_engine (alg_val sample_h PRIMA_BOBYQA)
       (Some example_problem) (Some zero_options) (Some zero_result) example_heap =
     Some (0, Some example_problem,
           Some (zero_options\<lparr>options_maxfun := 1000, options_npt := 5\<rparr>),
           Some (zero_result\<lparr>result_x := Some 3, result_nf := 1,
                   result_message := Some ''Trust region radius reaches its lower bound''\<rparr>),
           ?h1,
           [Bobyqa_c (Some 7) None 2 (Some 3) (Some 1) (Some 2) (Finite 0) (Finite 0)
              (Finite 0) 1000 5 0 None])"
    using example_check example_init_result
    by (simp add: prima_minimize_def engine_switch_def sample_engine_def
        prima_get_rc_string_def sample_h_def example_problem_def zero_problem_def
        zero_options_def zero_result_def)
  from sample_h_ok unknown_algorithm 0 1 2 show ?thesis by blast
qed

text \<open>
  Claim C9. Let the algorithm identifier be outside the enumeration, let the inputs pass
  validation, let \<^verbatim>\<open>x0\<close> point to a live block of at least \<open>n \<ge> 0\<close> doubles and let the
  allocation succeed. Then \<^verbatim>\<open>prima_init_result\<close> has run before \<^verbatim>\<open>prima_minimize\<close>
  returns \<^verbatim>\<open>PRIMA_INVALID_INPUT\<close>: \<^verbatim>\<open>result->x\<close> is a fresh live block holding a copy of
  \<^verbatim>\<open>x0\<close>, \<^verbatim>\<open>result->status\<close> is 0 and \<^verbatim>\<open>result->message\<close> is \<^verbatim>\<open>NULL\<close> as
  \<^verbatim>\<open>memset\<close> left them, and no engine was called. The block stays allocated until
  \<^verbatim>\<open>prima_free_result\<close> is called, which frees it and returns 0.
\<close>

theorem prima_minimize_invalid_algorithm:
  assumes "header_ok H"
    and "algorithm \<notin> set (map (alg_val H) all_algorithms)"
    and "prima_check_problem H (Some p) options
      (if algorithm = alg_val H PRIMA_COBYLA then 1 else 0) algorithm = (0, problem1, options1)"
    and "problem_x0 p = Some src" and "live h src = Some xs"
    and "0 \<le>s problem_n p" and "unat (problem_n p) \<le> length xs"
    and "\<not> request_fails h"
  shows
    "let a = length (blocks h);
         r = zero_result\<lparr>result_x := Some a\<rparr>;
         h1 = \<lparr>blocks = blocks h @ [Some (take (unat (problem_n p)) xs)],
               alloc_fails = tl (alloc_fails h)\<rparr>
     in prima_init_result H (Some r0) (Some p) h = Some (0, Some r, Some p, h1) \<and>
        prima_minimize H E algorithm (Some p) options (Some r0) h =
          Some (rc_val H PRIMA_INVALID_INPUT, Some p, options1, Some r, h1, []) \<and>
        result_status r = 0 \<and> result_message r = None \<and>
        a \<noteq> src \<and> live h1 src = Some xs \<and>
        live h1 a = Some (take (unat (problem_n p)) xs) \<and>
        prima_free_result H (Some r) h1 =
          Some (0, Some zero_result,
                \<lparr>blocks = blocks h @ [None], alloc_fails = tl (alloc_fails h)\<rparr>)"
proof -
  from check_problem_success [OF assms(1,3)]
  have p1: "problem1 = Some p" and mm: "solver_mismatch H p algorithm = None"
    by auto
  have "algorithm \<noteq> alg_val H PRIMA_COBYLA"
    using assms(2) by (auto simp: all_algorithms_def)
  then have nl: "\<not> 0 <s problem_m_nlcon p"
    using mm by (auto simp: solver_mismatch_def split: if_splits)
  let ?a = "length (blocks h)"
  let ?r = "zero_result\<lparr>result_x := Some ?a\<rparr>"
  let ?h1 = "\<lparr>blocks = blocks h @ [Some (take (unat (problem_n p)) xs)],
               alloc_fails = tl (alloc_fails h)\<rparr>"
  have ini: "prima_init_result H (Some r0) (Some p) h = Some (0, Some ?r, Some p, ?h1)"
    using init_result_outcome [OF assms(4-7), of H r0] assms(8) nl
    by (simp add: Let_def)
  have "prima_init_result H (Some r0) problem1 h = Some (0, Some ?r, Some p, ?h1)"
    using ini p1 by simp
  from minimize_after_init [OF assms(1) assms(3) this, of E]
  have m: "prima_minimize H E algorithm (Some p) options (Some r0) h =
          Some (rc_val H PRIMA_INVALID_INPUT, Some p, options1, Some ?r, ?h1, [])"
    by (auto simp: engine_switch_unknown [OF assms(2)])
  have src: "src < ?a" "blocks h ! src = Some xs"
    using assms(5) by (simp_all add: live_Some)
  have f: "prima_free_result H (Some ?r) ?h1 =
          Some (0, Some zero_result,
                \<lparr>blocks = blocks h @ [None], alloc_fails = tl (alloc_fails h)\<rparr>)"
    by (simp add: prima_free_result_def free_def live_def zero_result_def)
  show ?thesis
    unfolding Let_def using ini m f src
    by (simp add: live_def nth_append zero_result_def)
qed

theorem prima_minimize_invalid_algorithm_witness:
  "header_ok sample_h \<and>
   (- 1 :: cint) \<notin> set (map (alg_val sample_h) all_algorithms) \<and>
   live example_heap 0 = Some [Finite 0, Finite 0] \<and>
   \<not> request_fails example_heap \<and>
   prima_minimize sample_h sample_engine (- 1)
       (Some (example_problem\<lparr>problem_xl := None, problem_xu := None\<rparr>))
       (Some zero_options) (Some (zero_result\<lparr>result_status := 3\<rparr>)) example_heap =
     Some (100, Some (example_problem\<lparr>problem_xl := None, problem_xu := None\<rparr>),
           Some (zero_options\<lparr>options_maxfun := 1000, options_npt := 5\<rparr>),
           Some (zero_result\<lparr>result_x := Some 3\<rparr>),
           \<lparr>blocks = [Some [Finite 0, Finite 0], Some [Finite (- 1), Finite (- 1)],
                      Some [Finite 4.5, Finite 4.5], Some [Finite 0, Finite 0]],
            alloc_fails = []\<rparr>,
           []) \<and>
   prima_free_result sample_h (Some (zero_result\<lparr>result_x := Some 3\<rparr>))
       \<lparr>blocks = [Some [Finite 0, Finite 0], Some [Finite (- 1), Finite (- 1)],
                  Some [Finite 4.5, Finite 4.5], Some [Finite 0, Finite 0]],
        alloc_fails = []\<rparr> =
     Some (0, Some zero_result,
           \<lparr>blocks = [Some [Finite 0, Finite 0], Some [Finite (- 1), Finite (- 1)],
                      Some [Finite 4.5, Finite 4.5], None],
            alloc_fails = []\<rparr>)"
proof -
  let ?p = "example_problem\<lparr>problem_xl := None, problem_xu := None\<rparr>"
  have u: "(- 1 :: cint) \<notin> set (map (alg_val sample_h) all_algorithms)"
    by (simp add: sample_h_def all_algorithms_def)
  have a: "problem_x0 ?p = Some 0" "0 \<le>s problem_n ?p"
    "unat (problem_n ?p) \<le> length [Finite 0, Finite 0 :: double]"
    by (simp_all add: example_problem_def zero_problem_def word_sle_eq)
  have l: "live example_heap 0 = Some [Finite 0, Finite 0]"
    by (simp add: live_def example_heap_def)
  have f: "\<not> request_fails example_heap"
    by (simp add: request_fails_def example_heap_def)
  have v: "problem_n example_problem = 2" "rc_val sample_h PRIMA_INVALID_INPUT = 100"
    by (simp_all add: example_problem_def zero_problem_def sample_h_def)
  from prima_minimize_invalid_algorithm [OF sample_h_ok u unknown_check [OF u] a(1) l a(2,3) f,
      of "zero_result\<lparr>result_status := 3\<rparr>" sample_engine]
  have "prima_minimize sample_h sample_engine (- 1) (Some ?p)
       (Some zero_options) (Some (zero_result\<lparr>result_status := 3\<rparr>)) example_heap =
     Some (100, Some ?p,
           Some (zero_options\<lparr>options_maxfun := 1000, options_npt := 5\<rparr>),
           Some (zero_result\<lparr>result_x := Some 3\<rparr>),
           \<lparr>blocks = [Some [Finite 0, Finite 0], Some [Finite (- 1), Finite (- 1)],
                      Some [Finite 4.5, Finite 4.5], Some [Finite 0, Finite 0]],
            alloc_fails = []\<rparr>,
           []) \<and>
   prima_free_result sample_h (Some (zero_result\<lparr>result_x := Some 3\<rparr>))
       \<lparr>blocks = [Some [Finite 0, Finite 0], Some [Finite (- 1), Finite (- 1)],
                  Some [Finite 4.5, Finite 4.5], Some [Finite 0, Finite 0]],
        alloc_fails = []\<rparr> =
     Some (0, Some zero_result,
           \<lparr>blocks = [Some [Finite 0, Finite 0], Some [Finite (- 1), Finite (- 1)],
                      Some [Finite 4.5, Finite 4.5], None],
            alloc_fails = []\<rparr>)"
    by (simp add: Let_def v example_heap_def numeral_3_eq_3)
  with sample_h_ok u l f show ?thesis by blast
qed

end
